theory Spec2Isabelle
  imports Complex_Main "HOL-Library.Sublist" "HOL-Library.Multiset"
begin

section \<open>Python values used by the role distributor\<close>

text \<open>
  A Python \<open>str\<close> is a sequence of Unicode code points; a code point is a natural
  number.  \<open>u\<close> reads an ASCII literal as such a sequence.
\<close>

type_synonym pystr = "nat list"

definition u :: "string \<Rightarrow> pystr" where
  "u s = map of_char s"

text \<open>The characters for which \<open>str.isspace\<close> holds; \<open>str.strip()\<close> removes them at both ends.\<close>

definition isspace :: "nat \<Rightarrow> bool" where
  "isspace c \<longleftrightarrow>
     (9 \<le> c \<and> c \<le> 13) \<or> (28 \<le> c \<and> c \<le> 32) \<or> c = 133 \<or> c = 160 \<or> c = 5760 \<or>
     (8192 \<le> c \<and> c \<le> 8202) \<or> c = 8232 \<or> c = 8233 \<or> c = 8239 \<or> c = 8287 \<or> c = 12288"

definition strip :: "pystr \<Rightarrow> pystr" where
  "strip s = rev (dropWhile isspace (rev (dropWhile isspace s)))"

text \<open>
  \<open>s.find(sub, start)\<close>: the lowest index at or after \<open>start\<close> where \<open>sub\<close> occurs, or \<open>-1\<close>.
  \<open>find_at sub cs i\<close> scans the rest \<open>cs\<close> of the string, which begins at index \<open>i\<close>.
\<close>

fun find_at :: "pystr \<Rightarrow> pystr \<Rightarrow> nat \<Rightarrow> int" where
  "find_at sub [] i = (if sub = [] then int i else - 1)"
| "find_at sub (c # cs) i = (if prefix sub (c # cs) then int i else find_at sub cs (Suc i))"

text \<open>A slice bound as Python normalises it: a negative bound counts from the end, and
  the result is clamped to the length.\<close>

definition norm_index :: "nat \<Rightarrow> int \<Rightarrow> nat" where
  "norm_index n i = (if i < 0 then nat (max 0 (int n + i)) else min n (nat i))"

definition py_find :: "pystr \<Rightarrow> pystr \<Rightarrow> int \<Rightarrow> int" where
  "py_find s sub start =
     (let st = (if start < 0 then nat (max 0 (int (length s) + start)) else nat start)
      in if length s < st then - 1 else find_at sub (drop st s) st)"

text \<open>\<open>s.rfind(sub)\<close>: the highest index where \<open>sub\<close> occurs, or \<open>-1\<close>.\<close>

fun rfind_at :: "pystr \<Rightarrow> pystr \<Rightarrow> nat \<Rightarrow> int" where
  "rfind_at sub [] i = (if sub = [] then int i else - 1)"
| "rfind_at sub (c # cs) i =
     (let r = rfind_at sub cs (Suc i)
      in if r \<noteq> - 1 then r else if prefix sub (c # cs) then int i else - 1)"

definition py_rfind :: "pystr \<Rightarrow> pystr \<Rightarrow> int" where
  "py_rfind s sub = rfind_at sub s 0"

text \<open>\<open>xs[b:e]\<close> on a string or a list.\<close>

definition py_slice :: "'a list \<Rightarrow> int \<Rightarrow> int \<Rightarrow> 'a list" where
  "py_slice xs b e =
     (let lo = norm_index (length xs) b; hi = norm_index (length xs) e
      in take (hi - lo) (drop lo xs))"

definition startswith :: "pystr \<Rightarrow> pystr \<Rightarrow> bool" where
  "startswith s p = prefix p s"

text \<open>
  A Python \<open>float\<close> is a double: a finite one is a rational number, the others are the
  infinities and NaN.
\<close>

datatype pyfloat = Finite rat | PosInf | NegInf | NaN

text \<open>
  What \<open>json.loads\<close> can return.  A JSON object is a \<open>dict\<close> with string keys, kept
  here in its iteration order.
\<close>

datatype json =
    JNull
  | JBool bool
  | JInt int
  | JFloat pyfloat
  | JStr pystr
  | JList "json list"
  | JDict "(pystr \<times> json) list"

text \<open>
  The exceptions that can travel through the distributor.  \<open>RuntimeError\<close> carries its
  message; \<open>CapabilityError\<close> stands for whatever the text-generation service raises.
\<close>

datatype exn =
    RuntimeError pystr
  | JSONDecodeError
  | TypeError
  | ValueError
  | OverflowError
  | KeyError
  | AttributeError
  | CapabilityError nat

text \<open>The messages of the \<open>RuntimeError\<close>s the distributor raises, as code points.\<close>

definition msg_api_not_initialised :: pystr where
  \<comment> \<open>"NagaAgent API" followed by "not initialised"\<close>
  "msg_api_not_initialised =
     [78, 97, 103, 97, 65, 103, 101, 110, 116, 32, 65, 80, 73, 26410, 21021, 22987, 21270]"

definition msg_roles_empty :: pystr where
  \<comment> \<open>"role generation failed: the model returned an empty result"\<close>
  "msg_roles_empty =
     [35282, 33394, 29983, 25104, 22833, 36133, 58, 32, 22823, 27169, 22411, 36820, 22238,
      31354, 32467, 26524]"

definition msg_roles_undecodable :: pystr where
  \<comment> \<open>"role parsing failed: cannot parse JSON"\<close>
  "msg_roles_undecodable =
     [35282, 33394, 35299, 26512, 22833, 36133, 58, 32, 26080, 27861, 35299, 26512, 74, 83,
      79, 78]"

definition msg_permissions_missing :: pystr where
  \<comment> \<open>"permission parsing failed: the permissions field is missing"\<close>
  "msg_permissions_missing =
     [26435, 38480, 35299, 26512, 22833, 36133, 58, 32, 32570, 23569, 112, 101, 114, 109,
      105, 115, 115, 105, 111, 110, 115, 23383, 27573]"

definition msg_permissions_undecodable :: pystr where
  \<comment> \<open>"permission parsing failed: cannot parse JSON"\<close>
  "msg_permissions_undecodable =
     [26435, 38480, 35299, 26512, 22833, 36133, 58, 32, 26080, 27861, 35299, 26512, 74, 83,
      79, 78]"

text \<open>
  The built-in functions of Python that the distributor calls and that are not part of
  the repository: \<open>json.loads\<close>, \<open>str\<close> on a value that is not already a \<open>str\<close>, and
  \<open>int\<close> on a \<open>str\<close> (\<open>None\<close> where it raises \<open>ValueError\<close>).
\<close>

record builtins =
  json_loads :: "pystr \<Rightarrow> exn + json"
  str_of_value :: "json \<Rightarrow> pystr"
  int_of_str :: "pystr \<Rightarrow> int option"

section \<open>Locating the JSON text in a response\<close>

definition fence_json :: pystr where
  "fence_json = u ''```json''"

definition fence :: pystr where
  "fence = u ''```''"

definition lbrace :: pystr where
  "lbrace = u ''{''"

definition rbrace :: pystr where
  "rbrace = u ''}''"

text \<open>The text that \<open>_parse_roles_from_response\<close> hands to \<open>json.loads\<close>.\<close>

definition roles_json_str :: "pystr \<Rightarrow> pystr" where
  "roles_json_str response =
     (let json_start = py_find response fence_json 0;
          json_end = py_find response fence (json_start + 7)
      in if json_start \<noteq> - 1 \<and> json_end \<noteq> - 1
         then strip (py_slice response (json_start + 7) json_end)
         else let json_str = strip response
              in if startswith json_str lbrace
                 then let json_end = py_rfind json_str rbrace + 1
                      in py_slice json_str 0 json_end
                 else json_str)"

text \<open>The text that \<open>_parse_permissions_from_response\<close> hands to \<open>json.loads\<close>.\<close>

definition permissions_json_str :: "pystr \<Rightarrow> pystr" where
  "permissions_json_str response =
     (let json_start = py_find response fence_json 0;
          json_end = py_find response fence (json_start + 7)
      in if json_start \<noteq> - 1 \<and> json_end \<noteq> - 1
         then strip (py_slice response (json_start + 7) json_end)
         else let json_str = strip response
              in if startswith json_str lbrace
                 then let json_end = py_rfind json_str rbrace + 1
                      in py_slice json_str 0 json_end
                 else json_str)"

section \<open>Operators on decoded values\<close>

text \<open>\<open>sub in s\<close> on two strings: \<open>sub\<close> occurs somewhere in \<open>s\<close>.\<close>

definition str_contains :: "pystr \<Rightarrow> pystr \<Rightarrow> bool" where
  "str_contains s sub \<longleftrightarrow> py_find s sub 0 \<noteq> - 1"

text \<open>\<open>key in v\<close> for a string \<open>key\<close>: key membership on a dict, element membership on a
  list, substring test on a string, \<open>TypeError\<close> on anything else.\<close>

definition py_in :: "pystr \<Rightarrow> json \<Rightarrow> exn + bool" where
  "py_in key v =
     (case v of
        JDict kvs \<Rightarrow> Inr (key \<in> set (map fst kvs))
      | JList xs \<Rightarrow> Inr (JStr key \<in> set xs)
      | JStr s \<Rightarrow> Inr (str_contains s key)
      | _ \<Rightarrow> Inl TypeError)"

text \<open>\<open>v[key]\<close> for a string \<open>key\<close>.\<close>

definition py_getitem :: "json \<Rightarrow> pystr \<Rightarrow> exn + json" where
  "py_getitem v key =
     (case v of
        JDict kvs \<Rightarrow> (case map_of kvs key of None \<Rightarrow> Inl KeyError | Some x \<Rightarrow> Inr x)
      | _ \<Rightarrow> Inl TypeError)"

text \<open>\<open>v.get(key, default)\<close>: only a dict has the method.\<close>

definition py_get :: "json \<Rightarrow> pystr \<Rightarrow> json \<Rightarrow> exn + json" where
  "py_get v key dflt =
     (case v of
        JDict kvs \<Rightarrow> (case map_of kvs key of None \<Rightarrow> Inr dflt | Some x \<Rightarrow> Inr x)
      | _ \<Rightarrow> Inl AttributeError)"

text \<open>The items that \<open>for ... in enumerate(v)\<close> visits: the elements of a list, the keys of
  a dict, the characters of a string; anything else is not iterable.\<close>

definition py_iter :: "json \<Rightarrow> exn + json list" where
  "py_iter v =
     (case v of
        JList xs \<Rightarrow> Inr xs
      | JDict kvs \<Rightarrow> Inr (map (\<lambda>kv. JStr (fst kv)) kvs)
      | JStr s \<Rightarrow> Inr (map (\<lambda>c. JStr [c]) s)
      | _ \<Rightarrow> Inl TypeError)"

text \<open>\<open>str(v)\<close>: a \<open>str\<close> is returned as it is.\<close>

definition py_str :: "builtins \<Rightarrow> json \<Rightarrow> pystr" where
  "py_str b v = (case v of JStr s \<Rightarrow> s | _ \<Rightarrow> str_of_value b v)"

text \<open>\<open>int(v)\<close>: a float is truncated towards zero.\<close>

definition trunc :: "rat \<Rightarrow> int" where
  "trunc q = (if 0 \<le> q then \<lfloor>q\<rfloor> else \<lceil>q\<rceil>)"

definition py_int :: "builtins \<Rightarrow> json \<Rightarrow> exn + int" where
  "py_int b v =
     (case v of
        JInt n \<Rightarrow> Inr n
      | JBool t \<Rightarrow> Inr (if t then 1 else 0)
      | JFloat f \<Rightarrow>
          (case f of
             Finite q \<Rightarrow> Inr (trunc q)
           | NaN \<Rightarrow> Inl ValueError
           | _ \<Rightarrow> Inl OverflowError)
      | JStr s \<Rightarrow> (case int_of_str b s of None \<Rightarrow> Inl ValueError | Some n \<Rightarrow> Inr n)
      | _ \<Rightarrow> Inl TypeError)"

section \<open>The data model\<close>

text \<open>
  Modelled from the spec: \<open>Task\<close>, \<open>RoleGenerationRequest\<close> and \<open>GeneratedRole\<close> are
  declared in \<open>game.core.models.data_models\<close>, which is not among the sources.  They
  are taken as plain containers: the fields of section 3 of the specification for the task
  and the role, and for the request the four fields that \<open>generate_roles\<close> passes to its
  constructor (\<open>domain\<close> and \<open>constraints\<close> carry the prefix \<open>request_\<close> here, since
  the task has fields of the same names).
\<close>

record task =
  task_id :: pystr
  description :: pystr
  domain :: pystr
  requirements :: "pystr list"
  constraints :: "pystr list"
  max_iterations :: int

record role_generation_request =
  task_description :: pystr
  request_domain :: pystr
  expected_count_range :: "int \<times> int"
  request_constraints :: "pystr list"

record generated_role =
  name :: pystr
  role_type :: pystr
  responsibilities :: "pystr list"
  skills :: "pystr list"
  output_requirements :: pystr
  priority_level :: int

text \<open>
  A prompt sent to the text-generation service.  The fixed wording of the two templates is
  left out; a prompt keeps the values the template interpolates, in their order: for role
  generation the task description, the domain, the two bounds of the count range and the
  constraints; for permission assignment one entry per role with its number, name, type,
  first three responsibilities and priority.
\<close>

datatype prompt =
    RoleGenerationPrompt pystr pystr int int "pystr list"
  | PermissionAssignmentPrompt "(nat \<times> pystr \<times> pystr \<times> pystr list \<times> int) list"

text \<open>
  The text-generation service behind \<open>naga_conversation.get_response\<close>: given the prompts
  it has already received and the new prompt, it returns text or raises.  A distributor
  holds such a service or \<open>None\<close>.
\<close>

type_synonym capability = "prompt list \<Rightarrow> prompt \<Rightarrow> exn + pystr"

record distributor =
  naga_conversation :: "capability option"

section \<open>Role generation\<close>

definition build_role_generation_prompt :: "role_generation_request \<Rightarrow> prompt" where
  "build_role_generation_prompt request =
     (case expected_count_range request of
        (min_count, max_count) \<Rightarrow>
          RoleGenerationPrompt (task_description request) (request_domain request)
            min_count max_count (request_constraints request))"

text \<open>\<open>_call_llm_api\<close>; the second component lists the prompts the service has received.\<close>

definition call_llm_api ::
  "distributor \<Rightarrow> prompt list \<Rightarrow> prompt \<Rightarrow> (exn + pystr) \<times> prompt list" where
  "call_llm_api self sent p =
     (case naga_conversation self of
        None \<Rightarrow> (Inl (RuntimeError msg_api_not_initialised), sent)
      | Some conversation \<Rightarrow> (conversation sent p, sent @ [p]))"

definition parse_roles_from_response :: "builtins \<Rightarrow> pystr \<Rightarrow> exn + json" where
  "parse_roles_from_response b response =
     (case json_loads b (roles_json_str response) of
        Inl e \<Rightarrow> if e = JSONDecodeError then Inl (RuntimeError msg_roles_undecodable) else Inl e
      | Inr data \<Rightarrow>
          (case py_in (u ''roles'') data of
             Inl e \<Rightarrow> Inl e
           | Inr present \<Rightarrow> if present then py_getitem data (u ''roles'') else Inr (JList [])))"

definition ensure_list :: "builtins \<Rightarrow> json \<Rightarrow> pystr list" where
  "ensure_list b v =
     (case v of
        JList items \<Rightarrow>
          map (\<lambda>item. strip (py_str b item))
            (filter (\<lambda>item. strip (py_str b item) \<noteq> []) items)
      | JStr s \<Rightarrow> if strip s \<noteq> [] then [strip s] else []
      | _ \<Rightarrow> [])"

definition required_fields :: "pystr list" where
  "required_fields =
     [u ''name'', u ''role_type'', u ''responsibilities'', u ''skills'',
      u ''output_requirements'']"

text \<open>\<open>all(field in role_data for field in fields)\<close>: stops at the first absent field, and
  raises where \<open>in\<close> raises.\<close>

fun all_fields_in :: "json \<Rightarrow> pystr list \<Rightarrow> exn + bool" where
  "all_fields_in role_data [] = Inr True"
| "all_fields_in role_data (f # fs) =
     (case py_in f role_data of
        Inl e \<Rightarrow> Inl e
      | Inr present \<Rightarrow> if present then all_fields_in role_data fs else Inr False)"

text \<open>The construction of the \<open>GeneratedRole\<close>, its arguments evaluated in order.\<close>

definition make_role :: "builtins \<Rightarrow> json \<Rightarrow> exn + generated_role" where
  "make_role b role_data =
     (case py_getitem role_data (u ''name'') of Inl e \<Rightarrow> Inl e | Inr n \<Rightarrow>
     (case py_getitem role_data (u ''role_type'') of Inl e \<Rightarrow> Inl e | Inr t \<Rightarrow>
     (case py_getitem role_data (u ''responsibilities'') of Inl e \<Rightarrow> Inl e | Inr rs \<Rightarrow>
     (case py_getitem role_data (u ''skills'') of Inl e \<Rightarrow> Inl e | Inr sk \<Rightarrow>
     (case py_getitem role_data (u ''output_requirements'') of Inl e \<Rightarrow> Inl e | Inr out \<Rightarrow>
     (case py_get role_data (u ''priority_level'') (JInt 5) of Inl e \<Rightarrow> Inl e | Inr p \<Rightarrow>
     (case py_int b p of Inl e \<Rightarrow> Inl e | Inr level \<Rightarrow>
        Inr \<lparr>name = strip (py_str b n),
             role_type = strip (py_str b t),
             responsibilities = ensure_list b rs,
             skills = ensure_list b sk,
             output_requirements = strip (py_str b out),
             priority_level = level\<rparr>)))))))"

text \<open>One pass of the loop of \<open>_validate_generated_roles\<close>: the role it appends, or \<open>None\<close>
  when the candidate is skipped, rejected, or raises (the loop catches every exception).\<close>

definition validate_role :: "builtins \<Rightarrow> json \<Rightarrow> generated_role option" where
  "validate_role b role_data =
     (case all_fields_in role_data required_fields of
        Inl e \<Rightarrow> None
      | Inr present \<Rightarrow>
          if \<not> present then None
          else (case make_role b role_data of
                  Inl e \<Rightarrow> None
                | Inr role \<Rightarrow>
                    if name role \<noteq> [] \<and> role_type role \<noteq> [] \<and> responsibilities role \<noteq> []
                       \<and> skills role \<noteq> []
                    then Some role else None))"

text \<open>\<open>sorted(roles, key=lambda x: x.priority_level, reverse=True)\<close>: a stable sort, highest
  priority first.\<close>

definition sorted_by_priority :: "generated_role list \<Rightarrow> generated_role list" where
  "sorted_by_priority roles = sort_key (\<lambda>x. - priority_level x) roles"

definition validate_generated_roles ::
  "builtins \<Rightarrow> json \<Rightarrow> role_generation_request \<Rightarrow> exn + generated_role list" where
  "validate_generated_roles b raw_roles request =
     (case expected_count_range request of
        (min_count, max_count) \<Rightarrow>
          (case py_iter raw_roles of
             Inl e \<Rightarrow> Inl e
           | Inr items \<Rightarrow>
               (let validated_roles = List.map_filter (validate_role b) items
                in Inr (if int (length validated_roles) > max_count
                        then py_slice (sorted_by_priority validated_roles) 0 max_count
                        else validated_roles))))"

definition generate_roles ::
  "builtins \<Rightarrow> distributor \<Rightarrow> prompt list \<Rightarrow> task \<Rightarrow> int \<times> int
     \<Rightarrow> (exn + generated_role list) \<times> prompt list" where
  "generate_roles b self sent t count_range =
     (let request = \<lparr>task_description = description t, request_domain = domain t,
                     expected_count_range = count_range,
                     request_constraints = constraints t\<rparr>;
          generation_prompt = build_role_generation_prompt request
      in case call_llm_api self sent generation_prompt of
           (answer, sent') \<Rightarrow>
             (case answer of
                Inl e \<Rightarrow> (Inl e, sent')
              | Inr response \<Rightarrow>
                  (case parse_roles_from_response b response of
                     Inl e \<Rightarrow> (Inl e, sent')
                   | Inr roles \<Rightarrow>
                       (case validate_generated_roles b roles request of
                          Inl e \<Rightarrow> (Inl e, sent')
                        | Inr validated_roles \<Rightarrow>
                            if validated_roles = []
                            then (Inl (RuntimeError msg_roles_empty), sent')
                            else (Inr validated_roles, sent')))))"

section \<open>Permission assignment\<close>

definition build_permission_assignment_prompt :: "generated_role list \<Rightarrow> prompt" where
  "build_permission_assignment_prompt roles =
     PermissionAssignmentPrompt
       (map (\<lambda>(i, role). (i + 1, name role, role_type role, take 3 (responsibilities role),
                           priority_level role))
          (enumerate 0 roles))"

definition parse_permissions_from_response ::
  "builtins \<Rightarrow> pystr \<Rightarrow> generated_role list \<Rightarrow> exn + json" where
  "parse_permissions_from_response b response roles =
     (case json_loads b (permissions_json_str response) of
        Inl e \<Rightarrow>
          if e = JSONDecodeError then Inl (RuntimeError msg_permissions_undecodable) else Inl e
      | Inr data \<Rightarrow>
          (case py_in (u ''permissions'') data of
             Inl e \<Rightarrow> Inl e
           | Inr present \<Rightarrow>
               if present then py_getitem data (u ''permissions'')
               else Inl (RuntimeError msg_permissions_missing)))"

definition assign_collaboration_permissions ::
  "builtins \<Rightarrow> distributor \<Rightarrow> prompt list \<Rightarrow> generated_role list
     \<Rightarrow> (exn + json) \<times> prompt list" where
  "assign_collaboration_permissions b self sent roles =
     (let permission_prompt = build_permission_assignment_prompt roles
      in case call_llm_api self sent permission_prompt of
           (answer, sent') \<Rightarrow>
             (case answer of
                Inl e \<Rightarrow> (Inl e, sent')
              | Inr response \<Rightarrow> (parse_permissions_from_response b response roles, sent')))"

text \<open>The request that \<open>generate_roles\<close> builds from its arguments.\<close>

definition role_request :: "task \<Rightarrow> int \<times> int \<Rightarrow> role_generation_request" where
  "role_request t count_range =
     \<lparr>task_description = description t, request_domain = domain t,
      expected_count_range = count_range, request_constraints = constraints t\<rparr>"

section \<open>The round engine\<close>

text \<open>
  Modelled from the spec: the round engine (\<open>game.core.self_game.game_engine\<close>, with its
  actor, critic and novelty checker) is not among the sources; only its callers are.  The
  definitions of this section follow sections 3 and 4.4 of the specification.  The external
  cancellation signal of section 5 is left out.
\<close>

record agent =
  agent_id :: nat
  agent_name :: pystr
  is_requester :: bool
  connection_permissions :: "nat list"

record actor_output =
  actor_agent_id :: nat
  iteration :: nat
  content :: pystr
  generation_time :: rat

record critic_output =
  critic_agent_id :: nat
  target_output_id :: nat
  overall_score :: rat
  satisfaction_score :: rat

record philoss_output =
  target_content_id :: nat
  novelty_score :: rat

datatype decision = Continue | Terminate

record round_record =
  round_number :: nat
  round_decision :: decision
  round_failed :: bool
  actor_outputs :: "actor_output list"
  critic_outputs :: "critic_output list"
  philoss_outputs :: "philoss_output list"
  average_critical_score :: rat
  average_novelty_score :: rat
  average_satisfaction_score :: rat
  pareto_front :: "nat list"

record session =
  session_task :: task
  session_agents :: "agent list"
  rounds :: "round_record list"
  final_result :: actor_output

datatype engine_error = RoundExecutionError

text \<open>
  Modelled from the spec: the three external capabilities of a round.  Generation gets the
  agent, the round number and the content of the earlier rounds, and yields the text with
  its generation time, or \<open>None\<close> when the call fails; critique yields the overall and
  the satisfaction score; novelty is scored against the content of the earlier rounds.
\<close>

record capabilities =
  generate :: "agent \<Rightarrow> nat \<Rightarrow> pystr list \<Rightarrow> (pystr \<times> rat) option"
  critique :: "agent \<Rightarrow> actor_output \<Rightarrow> rat \<times> rat"
  novelty :: "pystr list \<Rightarrow> actor_output \<Rightarrow> rat"

text \<open>Modelled from the spec: the configured epsilon of the DECIDE phase.\<close>

record engine_config =
  epsilon :: rat

text \<open>Modelled from the spec: the mean of the scores of a round; 0 when there is none.\<close>

definition mean :: "rat list \<Rightarrow> rat" where
  "mean xs = (if xs = [] then 0 else sum_list xs / of_nat (length xs))"

text \<open>Modelled from the spec: the content produced in the rounds so far.\<close>

definition prior_content :: "round_record list \<Rightarrow> pystr list" where
  "prior_content rs = concat (map (\<lambda>r. map content (actor_outputs r)) rs)"

text \<open>Modelled from the spec: GENERATE.  Every agent but the requester acts once; a failed
  call leaves no output.\<close>

definition generate_phase ::
  "capabilities \<Rightarrow> agent list \<Rightarrow> round_record list \<Rightarrow> nat \<Rightarrow> actor_output list" where
  "generate_phase caps agents past n =
     List.map_filter
       (\<lambda>a. case generate caps a n (prior_content past) of
               None \<Rightarrow> None
             | Some (text, secs) \<Rightarrow>
                 Some \<lparr>actor_agent_id = agent_id a, iteration = n, content = text,
                       generation_time = secs\<rparr>)
       (filter (\<lambda>a. \<not> is_requester a) agents)"

text \<open>Modelled from the spec: CRITIQUE.  Every agent that produced an output scores every
  output that is not its own.\<close>

definition critique_phase ::
  "capabilities \<Rightarrow> agent list \<Rightarrow> actor_output list \<Rightarrow> critic_output list" where
  "critique_phase caps agents outs =
     concat (map (\<lambda>a.
         map (\<lambda>out. case critique caps a out of
                      (overall, satisfaction) \<Rightarrow>
                        \<lparr>critic_agent_id = agent_id a, target_output_id = actor_agent_id out,
                         overall_score = overall, satisfaction_score = satisfaction\<rparr>)
           (filter (\<lambda>out. actor_agent_id out \<noteq> agent_id a) outs))
       (filter (\<lambda>a. agent_id a \<in> set (map actor_agent_id outs)) agents))"

text \<open>Modelled from the spec: NOVELTY.\<close>

definition novelty_phase ::
  "capabilities \<Rightarrow> round_record list \<Rightarrow> actor_output list \<Rightarrow> philoss_output list" where
  "novelty_phase caps past outs =
     map (\<lambda>out. \<lparr>target_content_id = actor_agent_id out,
                  novelty_score = novelty caps (prior_content past) out\<rparr>) outs"

text \<open>Modelled from the spec: the three objectives of an output: the mean overall score and
  the mean satisfaction score of its critiques, and its novelty score.\<close>

definition objectives ::
  "critic_output list \<Rightarrow> philoss_output list \<Rightarrow> actor_output \<Rightarrow> rat \<times> rat \<times> rat" where
  "objectives crits phils out =
     (let mine = filter (\<lambda>c. target_output_id c = actor_agent_id out) crits
      in (mean (map overall_score mine),
          mean (map novelty_score
                  (filter (\<lambda>p. target_content_id p = actor_agent_id out) phils)),
          mean (map satisfaction_score mine)))"

text \<open>Modelled from the spec: one candidate dominates another when it is at least as good
  on the three objectives and better on one.\<close>

definition dominates :: "rat \<times> rat \<times> rat \<Rightarrow> rat \<times> rat \<times> rat \<Rightarrow> bool" where
  "dominates x y =
     (case x of (c1, n1, s1) \<Rightarrow> case y of (c2, n2, s2) \<Rightarrow>
        c2 \<le> c1 \<and> n2 \<le> n1 \<and> s2 \<le> s1 \<and> (c2 < c1 \<or> n2 < n1 \<or> s2 < s1))"

text \<open>Modelled from the spec: AGGREGATE and DECIDE.  The round terminates the session when
  its number reaches \<open>max_iterations\<close>, when the mean critical score improved by less than
  epsilon over the round before and the front holds a single candidate, or when every
  agent failed.\<close>

definition run_round ::
  "capabilities \<Rightarrow> engine_config \<Rightarrow> task \<Rightarrow> agent list \<Rightarrow> round_record list \<Rightarrow> nat
     \<Rightarrow> round_record" where
  "run_round caps cfg t agents past n =
     (let outs = generate_phase caps agents past n;
          crits = critique_phase caps agents outs;
          phils = novelty_phase caps past outs;
          obj = objectives crits phils;
          critical = mean (map (\<lambda>out. fst (obj out)) outs);
          front = filter (\<lambda>out. \<not> (\<exists>other \<in> set outs. dominates (obj other) (obj out))) outs;
          stalled = (case past of
                       [] \<Rightarrow> False
                     | _ \<Rightarrow> critical - average_critical_score (last past) < epsilon cfg
                            \<and> length front = 1)
      in \<lparr>round_number = n,
          round_decision =
            (if outs = [] \<or> max_iterations t \<le> int n \<or> stalled then Terminate else Continue),
          round_failed = (outs = []),
          actor_outputs = outs, critic_outputs = crits, philoss_outputs = phils,
          average_critical_score = critical,
          average_novelty_score = mean (map (\<lambda>out. fst (snd (obj out))) outs),
          average_satisfaction_score = mean (map (\<lambda>out. snd (snd (obj out))) outs),
          pareto_front = map actor_agent_id front\<rparr>)"

text \<open>Modelled from the spec: the loop over the rounds, from round \<open>n\<close> on; each completed
  round is appended once.\<close>

function round_loop ::
  "capabilities \<Rightarrow> engine_config \<Rightarrow> task \<Rightarrow> agent list \<Rightarrow> round_record list \<Rightarrow> nat
     \<Rightarrow> round_record list" where
  "round_loop caps cfg t agents past n =
     (let r = run_round caps cfg t agents past n
      in if round_decision r = Terminate then past @ [r]
         else round_loop caps cfg t agents (past @ [r]) (Suc n))"
  by pat_completeness auto
termination
proof (relation "measure (\<lambda>(caps, cfg, t, agents, past, n). nat (max_iterations t - int n))")
  show "wf (measure (\<lambda>(caps, cfg, t, agents, past, n). nat (max_iterations t - int n)))"
    by simp
next
  fix caps :: capabilities and cfg :: engine_config and t :: task and agents :: "agent list"
    and past :: "round_record list" and n :: nat and r :: round_record
  assume "r = run_round caps cfg t agents past n" and "round_decision r \<noteq> Terminate"
  then have "\<not> max_iterations t \<le> int n"
    by (auto simp: run_round_def Let_def split: if_splits)
  then show "((caps, cfg, t, agents, past @ [r], Suc n), (caps, cfg, t, agents, past, n))
      \<in> measure (\<lambda>(caps, cfg, t, agents, past, n). nat (max_iterations t - int n))"
    by simp
qed

declare round_loop.simps [simp del]

text \<open>Modelled from the spec: selection of the final result.  Among the front of a round
  the highest overall score wins, then the higher satisfaction score, then the lower
  generation time.\<close>

definition better ::
  "(actor_output \<Rightarrow> rat \<times> rat \<times> rat) \<Rightarrow> actor_output \<Rightarrow> actor_output \<Rightarrow> bool" where
  "better obj a c =
     (fst (obj c) < fst (obj a)
      \<or> (fst (obj c) = fst (obj a)
          \<and> (snd (snd (obj c)) < snd (snd (obj a))
              \<or> (snd (snd (obj c)) = snd (snd (obj a))
                  \<and> generation_time a < generation_time c))))"

text \<open>Modelled from the spec: the best candidate of the front of a round, if it has one.\<close>

definition best_of_round :: "round_record \<Rightarrow> actor_output option" where
  "best_of_round r =
     (let obj = objectives (critic_outputs r) (philoss_outputs r);
          cands = filter (\<lambda>out. actor_agent_id out \<in> set (pareto_front r)) (actor_outputs r)
      in case cands of
           [] \<Rightarrow> None
         | c # cs \<Rightarrow> Some (foldl (\<lambda>best out. if better obj out best then out else best) c cs))"

text \<open>Modelled from the spec: the result of the latest round that has one.\<close>

fun select_result :: "round_record list \<Rightarrow> actor_output option" where
  "select_result [] = None"
| "select_result (r # rs) =
     (case select_result rs of
        Some out \<Rightarrow> Some out
      | None \<Rightarrow> best_of_round r)"

text \<open>Modelled from the spec: \<open>start_game_session\<close>; rounds are numbered from 1.\<close>

definition start_game_session ::
  "capabilities \<Rightarrow> engine_config \<Rightarrow> task \<Rightarrow> agent list \<Rightarrow> engine_error + session" where
  "start_game_session caps cfg t agents =
     (let rs = round_loop caps cfg t agents [] 1
      in case select_result rs of
           None \<Rightarrow> Inl RoundExecutionError
         | Some out \<Rightarrow>
             Inr \<lparr>session_task = t, session_agents = agents, rounds = rs,
                  final_result = out\<rparr>)"

section \<open>Notions used to state the properties\<close>

text \<open>The response contains a \<open>```json\<close> opener with a \<open>```\<close> fence somewhere after it.\<close>

definition has_fenced_block :: "pystr \<Rightarrow> bool" where
  "has_fenced_block response \<longleftrightarrow>
     (\<exists>pre body post. response = pre @ fence_json @ body @ fence @ post)"

text \<open>
  Following the words of the specification, not the code: the first top-level \<open>{...}\<close>
  span of a text, from its first opening brace to the brace that closes it.
  \<open>span_length cs d\<close> is the number of characters up to and including the closing brace
  that brings the nesting depth \<open>d\<close> back to zero.
\<close>

fun span_length :: "pystr \<Rightarrow> nat \<Rightarrow> nat option" where
  "span_length [] d = None"
| "span_length (c # cs) d =
     (if c = 125 then (if d \<le> 1 then Some 1 else map_option Suc (span_length cs (d - 1)))
      else map_option Suc (span_length cs (if c = 123 then Suc d else d)))"

definition spec_first_top_level_span :: "pystr \<Rightarrow> pystr option" where
  "spec_first_top_level_span s =
     (let rest = dropWhile (\<lambda>c. c \<noteq> 123) s
      in case span_length rest 0 of None \<Rightarrow> None | Some n \<Rightarrow> Some (take n rest))"

text \<open>A decoded value that is not a mapping, or a mapping without the key.\<close>

definition structurally_wrong :: "pystr \<Rightarrow> json \<Rightarrow> bool" where
  "structurally_wrong key data =
     (case data of JDict kvs \<Rightarrow> map_of kvs key = None | _ \<Rightarrow> True)"

text \<open>A decoded value that is \<open>null\<close>, a boolean or a number: it supports neither \<open>in\<close>
  nor iteration.\<close>

definition is_scalar :: "json \<Rightarrow> bool" where
  "is_scalar v =
     (case v of JNull \<Rightarrow> True | JBool t \<Rightarrow> True | JInt n \<Rightarrow> True | JFloat f \<Rightarrow> True
      | _ \<Rightarrow> False)"

text \<open>The key occurs in a decoded list, as an element, or in a decoded string, as a part.\<close>

definition key_occurs :: "pystr \<Rightarrow> json \<Rightarrow> bool" where
  "key_occurs key data =
     (case data of JList xs \<Rightarrow> JStr key \<in> set xs | JStr s \<Rightarrow> str_contains s key
      | _ \<Rightarrow> False)"

text \<open>
  One parsing procedure with three parameters: the key to read, the result when the key is
  absent, and the message of the error for text that is not JSON.  It is what the two
  parsers are compared with.
\<close>

definition parse_with_key ::
  "builtins \<Rightarrow> pystr \<Rightarrow> exn + json \<Rightarrow> pystr \<Rightarrow> pystr \<Rightarrow> exn + json" where
  "parse_with_key b key absent msg response =
     (case json_loads b (roles_json_str response) of
        Inl e \<Rightarrow> if e = JSONDecodeError then Inl (RuntimeError msg) else Inl e
      | Inr data \<Rightarrow>
          (case py_in key data of
             Inl e \<Rightarrow> Inl e
           | Inr present \<Rightarrow> if present then py_getitem data key else absent))"

section \<open>Concrete inputs\<close>

text \<open>
  A response of the service with a fenced block of two roles, the second without a
  priority, and the value \<open>json.loads\<close> decodes from the block.
\<close>

definition roles_payload :: pystr where
  \<open>roles_payload = u ''{"roles": [{"name": "Planner", "role_type": "lead", "responsibilities": ["plan"], "skills": "planning", "output_requirements": "a plan", "priority_level": 8}, {"name": "Coder", "role_type": "dev", "responsibilities": ["code"], "skills": ["python"], "output_requirements": "code"}]}''\<close>

definition roles_response :: pystr where
  "roles_response = u ''Here are the roles: ```json '' @ roles_payload @ u '' ``` Done.''"

definition planner_json :: json where
  "planner_json =
     JDict [(u ''name'', JStr (u ''Planner'')), (u ''role_type'', JStr (u ''lead'')),
            (u ''responsibilities'', JList [JStr (u ''plan'')]),
            (u ''skills'', JStr (u ''planning'')),
            (u ''output_requirements'', JStr (u ''a plan'')),
            (u ''priority_level'', JInt 8)]"

definition coder_fields :: "(pystr \<times> json) list" where
  "coder_fields =
     [(u ''name'', JStr (u ''Coder'')), (u ''role_type'', JStr (u ''dev'')),
      (u ''responsibilities'', JList [JStr (u ''code'')]),
      (u ''skills'', JList [JStr (u ''python'')]),
      (u ''output_requirements'', JStr (u ''code''))]"

definition coder_json :: json where
  "coder_json = JDict coder_fields"

text \<open>A third candidate, with the priority of the first, and two candidates that do not
  pass: one without skills, one whose skills are not text.\<close>

definition tester_json :: json where
  "tester_json =
     JDict [(u ''name'', JStr (u ''Tester'')), (u ''role_type'', JStr (u ''qa'')),
            (u ''responsibilities'', JStr (u '' test '')),
            (u ''skills'', JList [JStr (u ''review''), JStr (u '' '')]),
            (u ''output_requirements'', JStr (u ''report'')),
            (u ''priority_level'', JInt 8)]"

definition tester :: generated_role where
  "tester = \<lparr>name = u ''Tester'', role_type = u ''qa'', responsibilities = [u ''test''],
             skills = [u ''review''], output_requirements = u ''report'', priority_level = 8\<rparr>"

definition nameless_fields :: "(pystr \<times> json) list" where
  "nameless_fields =
     [(u ''name'', JStr (u ''Ghost'')), (u ''role_type'', JStr (u ''dev'')),
      (u ''responsibilities'', JList [JStr (u ''code'')]),
      (u ''output_requirements'', JStr (u ''code''))]"

definition unskilled_fields :: "(pystr \<times> json) list" where
  "unskilled_fields =
     [(u ''name'', JStr (u ''Ghost'')), (u ''role_type'', JStr (u ''dev'')),
      (u ''responsibilities'', JList [JStr (u ''code'')]),
      (u ''skills'', JInt 3),
      (u ''output_requirements'', JStr (u ''code''))]"

definition roles_decoded :: json where
  "roles_decoded = JDict [(u ''roles'', JList [planner_json, coder_json])]"

definition planner :: generated_role where
  "planner = \<lparr>name = u ''Planner'', role_type = u ''lead'', responsibilities = [u ''plan''],
              skills = [u ''planning''], output_requirements = u ''a plan'',
              priority_level = 8\<rparr>"

definition coder :: generated_role where
  "coder = \<lparr>name = u ''Coder'', role_type = u ''dev'', responsibilities = [u ''code''],
            skills = [u ''python''], output_requirements = u ''code'', priority_level = 5\<rparr>"

definition permissions_payload :: pystr where
  \<open>permissions_payload = u ''{"permissions": {"Planner": ["Coder"], "Coder": ["Planner"]}}''\<close>

definition permissions_value :: json where
  "permissions_value =
     JDict [(u ''Planner'', JList [JStr (u ''Coder'')]),
            (u ''Coder'', JList [JStr (u ''Planner'')])]"

definition empty_roles_payload :: pystr where
  \<open>empty_roles_payload = u ''{"roles": []}''\<close>

definition unfenced_response :: pystr where
  \<open>unfenced_response = u ''Result: {"roles": []}''\<close>

text \<open>
  \<open>json.loads\<close> on the payloads above and on the empty object; every other text that
  the examples decode is not JSON.  \<open>str\<close> and \<open>int\<close> are given on \<open>None\<close> and on
  the numeral 8, which is all the examples convert.
\<close>

definition example_builtins :: builtins where
  "example_builtins =
     \<lparr>json_loads = (\<lambda>s.
        if s = roles_payload then Inr roles_decoded
        else if s = permissions_payload then Inr (JDict [(u ''permissions'', permissions_value)])
        else if s = empty_roles_payload then Inr (JDict [(u ''roles'', JList [])])
        else if s = u ''{}'' then Inr (JDict [])
        else Inl JSONDecodeError),
      str_of_value = (\<lambda>v. if v = JNull then u ''None'' else []),
      int_of_str = (\<lambda>s. if s = u ''8'' then Some 8 else None)\<rparr>"

text \<open>Three more payloads: a number, and objects whose \<open>roles\<close> or \<open>permissions\<close> entry is
  \<open>null\<close>; and \<open>json.loads\<close> extended to them.\<close>

definition scalar_payload :: pystr where
  "scalar_payload = u ''5''"

definition null_roles_payload :: pystr where
  \<open>null_roles_payload = u ''{"roles": null}''\<close>

definition null_permissions_payload :: pystr where
  \<open>null_permissions_payload = u ''{"permissions": null}''\<close>

definition wide_builtins :: builtins where
  "wide_builtins =
     example_builtins\<lparr>json_loads := (\<lambda>s.
        if s = scalar_payload then Inr (JInt 5)
        else if s = null_roles_payload then Inr (JDict [(u ''roles'', JNull)])
        else if s = null_permissions_payload then Inr (JDict [(u ''permissions'', JNull)])
        else json_loads example_builtins s)\<rparr>"

text \<open>A service that sends the same text whatever it is asked, and one that answers each
  kind of prompt with the matching payload.\<close>

definition answering :: "pystr \<Rightarrow> distributor" where
  "answering response = \<lparr>naga_conversation = Some (\<lambda>sent p. Inr response)\<rparr>"

definition example_distributor :: distributor where
  "example_distributor =
     \<lparr>naga_conversation = Some (\<lambda>sent p.
        case p of
          RoleGenerationPrompt d dm lo hi cs \<Rightarrow> Inr roles_response
        | PermissionAssignmentPrompt roster \<Rightarrow> Inr permissions_payload)\<rparr>"

definition example_task :: task where
  "example_task =
     \<lparr>task_id = u ''t1'', description = u ''design a diet app'', domain = u ''product'',
      requirements = [u ''track progress''], constraints = [u ''two weeks''],
      max_iterations = 2\<rparr>"

text \<open>A requester and two agents; every agent answers with its name in one second, a
  critic gives an output the number of its author as overall score, and every output is
  half satisfying and half novel.\<close>

definition example_agents :: "agent list" where
  "example_agents =
     [\<lparr>agent_id = 0, agent_name = u ''R'', is_requester = True, connection_permissions = [1]\<rparr>,
      \<lparr>agent_id = 1, agent_name = u ''A'', is_requester = False, connection_permissions = [0, 2]\<rparr>,
      \<lparr>agent_id = 2, agent_name = u ''B'', is_requester = False, connection_permissions = [1]\<rparr>]"

definition example_capabilities :: capabilities where
  "example_capabilities =
     \<lparr>generate = (\<lambda>a n prior. Some (agent_name a, 1)),
      critique = (\<lambda>a out. (of_nat (actor_agent_id out), 1 / 2)),
      novelty = (\<lambda>prior out. 1 / 2)\<rparr>"

definition example_config :: engine_config where
  "example_config = \<lparr>epsilon = 1 / 10\<rparr>"

section \<open>Searching and slicing\<close>

lemma find_at_skip:
  "(\<forall>k<length pre. \<not> prefix sub (drop k (pre @ rest))) \<Longrightarrow>
     find_at sub (pre @ rest) i = find_at sub rest (i + length pre)"
proof (induction pre arbitrary: i)
  case Nil
  then show ?case by simp
next
  case (Cons c pre)
  from Cons.prems have no0: "\<not> prefix sub (c # pre @ rest)"
    by (metis append_Cons drop0 length_greater_0_conv list.discI)
  from Cons.prems have "\<forall>k<length pre. \<not> prefix sub (drop k (pre @ rest))"
    by (metis Suc_less_eq append_Cons drop_Suc_Cons length_Cons)
  then have "find_at sub (pre @ rest) (Suc i) = find_at sub rest (Suc i + length pre)"
    by (rule Cons.IH)
  with no0 show ?case by simp
qed

lemma find_at_hit: "prefix sub rest \<Longrightarrow> find_at sub rest i = int i"
  by (cases rest) auto

lemma find_at_none:
  "(\<forall>k\<le>length cs. \<not> prefix sub (drop k cs)) \<Longrightarrow> find_at sub cs i = - 1"
proof (induction cs arbitrary: i)
  case Nil
  then show ?case by auto
next
  case (Cons c cs)
  from Cons.prems have no0: "\<not> prefix sub (c # cs)"
    by (metis drop0 le0)
  from Cons.prems have "\<forall>k\<le>length cs. \<not> prefix sub (drop k cs)"
    by (metis Suc_le_mono drop_Suc_Cons length_Cons)
  then have "find_at sub cs (Suc i) = - 1" by (rule Cons.IH)
  with no0 show ?case by simp
qed

lemma find_at_result:
  "find_at sub cs i = - 1 \<and> (\<forall>k\<le>length cs. \<not> prefix sub (drop k cs))
   \<or> (\<exists>k\<le>length cs. find_at sub cs i = int (i + k) \<and> prefix sub (drop k cs)
         \<and> (\<forall>j<k. \<not> prefix sub (drop j cs)))"
proof (induction cs arbitrary: i)
  case Nil
  then show ?case by auto
next
  case (Cons c cs)
  show ?case
  proof (cases "prefix sub (c # cs)")
    case True
    then have "find_at sub (c # cs) i = int (i + 0) \<and> prefix sub (drop 0 (c # cs))
        \<and> (\<forall>j<0. \<not> prefix sub (drop j (c # cs)))" by simp
    then show ?thesis by blast
  next
    case False
    from Cons.IH[of "Suc i"] show ?thesis
    proof
      assume a: "find_at sub cs (Suc i) = - 1 \<and> (\<forall>k\<le>length cs. \<not> prefix sub (drop k cs))"
      have "\<forall>k\<le>length (c # cs). \<not> prefix sub (drop k (c # cs))"
      proof (intro allI impI)
        fix k assume "k \<le> length (c # cs)"
        then show "\<not> prefix sub (drop k (c # cs))"
          using a False by (cases k) auto
      qed
      with a False show ?thesis by simp
    next
      assume "\<exists>k\<le>length cs. find_at sub cs (Suc i) = int (Suc i + k) \<and> prefix sub (drop k cs)
         \<and> (\<forall>j<k. \<not> prefix sub (drop j cs))"
      then obtain k where k: "k \<le> length cs" "find_at sub cs (Suc i) = int (Suc i + k)"
        "prefix sub (drop k cs)" "\<forall>j<k. \<not> prefix sub (drop j cs)" by blast
      have "\<forall>j<Suc k. \<not> prefix sub (drop j (c # cs))"
      proof (intro allI impI)
        fix j assume "j < Suc k"
        then show "\<not> prefix sub (drop j (c # cs))"
          using k(4) False by (cases j) auto
      qed
      with k False have "Suc k \<le> length (c # cs) \<and> find_at sub (c # cs) i = int (i + Suc k)
        \<and> prefix sub (drop (Suc k) (c # cs)) \<and> (\<forall>j<Suc k. \<not> prefix sub (drop j (c # cs)))"
        by simp
      then show ?thesis by blast
    qed
  qed
qed

lemma find_at_nonneg: "find_at sub cs i \<noteq> - 1 \<Longrightarrow> int i \<le> find_at sub cs i"
  using find_at_result[of sub cs i] by auto

lemma py_find_0: "py_find s sub 0 = find_at sub s 0"
  by (simp add: py_find_def)

lemma py_find_nat: "n \<le> length s \<Longrightarrow> py_find s sub (int n) = find_at sub (drop n s) n"
  by (simp add: py_find_def)

lemma py_find_beyond: "length s < n \<Longrightarrow> py_find s sub (int n) = - 1"
  by (simp add: py_find_def)

lemma prefix_drop_iff:
  "k \<le> length s \<and> prefix sub (drop k s) \<longleftrightarrow> (\<exists>pre rest. s = pre @ sub @ rest \<and> length pre = k)"
proof
  assume a: "k \<le> length s \<and> prefix sub (drop k s)"
  then obtain rest where "drop k s = sub @ rest" by (auto simp: prefix_def)
  then have "s = take k s @ sub @ rest" by (metis append_take_drop_id)
  moreover have "length (take k s) = k" using a by simp
  ultimately show "\<exists>pre rest. s = pre @ sub @ rest \<and> length pre = k" by blast
next
  assume "\<exists>pre rest. s = pre @ sub @ rest \<and> length pre = k"
  then show "k \<le> length s \<and> prefix sub (drop k s)" by auto
qed

lemma py_in_dict: "py_in key (JDict kvs) = Inr (map_of kvs key \<noteq> None)"
  by (simp add: py_in_def map_of_eq_None_iff)

lemma py_in_list: "py_in key (JList xs) = Inr (JStr key \<in> set xs)"
  by (simp add: py_in_def)

lemma py_in_str: "py_in key (JStr s) = Inr (str_contains s key)"
  by (simp add: py_in_def)

lemma py_in_scalar:
  "py_in key JNull = Inl TypeError" "py_in key (JBool t) = Inl TypeError"
  "py_in key (JInt n) = Inl TypeError" "py_in key (JFloat f) = Inl TypeError"
  by (simp_all add: py_in_def)

lemmas py_in_simps = py_in_dict py_in_list py_in_str py_in_scalar

section \<open>The fenced block\<close>

lemma length_fence_json: "length fence_json = 7"
  by (simp add: fence_json_def u_def)

lemma py_slice_nat:
  "py_slice xs (int a) (int c) = take (min (length xs) c - min (length xs) a) (drop (min (length xs) a) xs)"
  by (simp add: py_slice_def norm_index_def Let_def)

lemma json_str_fenced:
  assumes first_opener: "\<forall>k<length pre. \<not> prefix fence_json (drop k (pre @ fence_json @ body @ fence @ post))"
      and next_fence: "\<forall>k<length body. \<not> prefix fence (drop k (body @ fence @ post))"
  shows "roles_json_str (pre @ fence_json @ body @ fence @ post) = strip body"
proof -
  let ?r = "pre @ fence_json @ body @ fence @ post"
  have "find_at fence_json ?r 0 = find_at fence_json (fence_json @ body @ fence @ post) (0 + length pre)"
    using first_opener by (rule find_at_skip)
  also have "\<dots> = int (length pre)"
    by (simp add: find_at_hit)
  finally have start: "py_find ?r fence_json 0 = int (length pre)"
    by (simp add: py_find_0)
  have "py_find ?r fence (int (length pre + 7)) = find_at fence (drop (length pre + 7) ?r) (length pre + 7)"
    by (rule py_find_nat) (simp add: length_fence_json)
  also have "drop (length pre + 7) ?r = body @ fence @ post"
    by (simp add: length_fence_json)
  also have "find_at fence (body @ fence @ post) (length pre + 7)
      = find_at fence (fence @ post) (length pre + 7 + length body)"
    using next_fence by (rule find_at_skip)
  also have "\<dots> = int (length pre + 7 + length body)"
    by (simp add: find_at_hit)
  finally have stop: "py_find ?r fence (int (length pre) + 7) = int (length pre + 7 + length body)"
    by (simp add: add.commute)
  have "py_slice ?r (int (length pre) + 7) (int (length pre + 7 + length body)) = body"
    using py_slice_nat[of ?r "length pre + 7" "length pre + 7 + length body"]
    by (simp add: length_fence_json)
  with start stop show ?thesis
    by (simp add: roles_json_str_def Let_def)
qed

lemma no_tick_no_prefix:
  assumes "c \<notin> set pre" and "k < length pre"
  shows "\<not> prefix (c # sub) (drop k (pre @ rest))"
proof -
  from assms(2) have "drop k (pre @ rest) = pre ! k # drop (Suc k) (pre @ rest)"
    by (metis Cons_nth_drop_Suc length_append nth_append trans_less_add1)
  moreover from assms have "pre ! k \<noteq> c" by (metis nth_mem)
  ultimately show ?thesis by auto
qed

lemma fence_json_Cons: "fence_json = 96 # [96, 96, 106, 115, 111, 110]"
  by (simp add: fence_json_def u_def)

lemma fence_Cons: "fence = 96 # [96, 96]"
  by (simp add: fence_def u_def)

lemma json_str_fenced_plain:
  assumes "96 \<notin> set pre" and "96 \<notin> set body"
  shows "roles_json_str (pre @ fence_json @ body @ fence @ post) = strip body"
proof (rule json_str_fenced)
  show "\<forall>k<length pre. \<not> prefix fence_json (drop k (pre @ fence_json @ body @ fence @ post))"
    using no_tick_no_prefix[OF assms(1), of _ "[96, 96, 106, 115, 111, 110]"]
    by (simp only: fence_json_Cons [symmetric]) blast
  show "\<forall>k<length body. \<not> prefix fence (drop k (body @ fence @ post))"
    using no_tick_no_prefix[OF assms(2), of _ "[96, 96]"]
    by (simp only: fence_Cons [symmetric]) blast
qed

lemma extract_example_roles: "roles_json_str roles_response = roles_payload"
proof -
  have a: "96 \<notin> set (u ''Here are the roles: '')" by (simp add: u_def)
  have b: "96 \<notin> set (u '' '' @ roles_payload @ u '' '')" by (simp add: u_def roles_payload_def)
  have c: "strip (u '' '' @ roles_payload @ u '' '') = roles_payload"
    by (simp add: strip_def u_def roles_payload_def isspace_def)
  have "roles_response = u ''Here are the roles: '' @ fence_json @ (u '' '' @ roles_payload @ u '' '') @ fence @ u '' Done.''"
    by (simp add: roles_response_def fence_json_def fence_def u_def)
  with json_str_fenced_plain[OF a b, of "u '' Done.''"] c show ?thesis by simp
qed

section \<open>The operations on the concrete inputs\<close>

lemma json_str_same: "permissions_json_str response = roles_json_str response"
  by (simp add: roles_json_str_def permissions_json_str_def)

lemma generate_roles_unfold:
  "generate_roles b self sent t count_range =
     (case call_llm_api self sent (build_role_generation_prompt (role_request t count_range)) of
           (answer, sent') \<Rightarrow>
             (case answer of
                Inl e \<Rightarrow> (Inl e, sent')
              | Inr response \<Rightarrow>
                  (case parse_roles_from_response b response of
                     Inl e \<Rightarrow> (Inl e, sent')
                   | Inr roles \<Rightarrow>
                       (case validate_generated_roles b roles (role_request t count_range) of
                          Inl e \<Rightarrow> (Inl e, sent')
                        | Inr validated_roles \<Rightarrow>
                            if validated_roles = []
                            then (Inl (RuntimeError msg_roles_empty), sent')
                            else (Inr validated_roles, sent')))))"
  unfolding generate_roles_def role_request_def Let_def by (rule refl)

lemma call_answering:
  "call_llm_api (answering response) sent p = (Inr response, sent @ [p])"
  by (simp add: call_llm_api_def answering_def)

lemma call_example_roles:
  "call_llm_api example_distributor sent (build_role_generation_prompt request)
     = (Inr roles_response, sent @ [build_role_generation_prompt request])"
  by (simp add: call_llm_api_def example_distributor_def build_role_generation_prompt_def
        split: prod.splits)

lemma call_example_permissions:
  "call_llm_api example_distributor sent (build_permission_assignment_prompt roles)
     = (Inr permissions_payload, sent @ [build_permission_assignment_prompt roles])"
  by (simp add: call_llm_api_def example_distributor_def build_permission_assignment_prompt_def)

lemmas str_eval = u_def fence_json_def fence_def lbrace_def rbrace_def py_find_def py_rfind_def
  py_slice_def norm_index_def strip_def isspace_def startswith_def Let_def

lemma extract_empty_roles: "roles_json_str empty_roles_payload = empty_roles_payload"
  by (simp add: roles_json_str_def empty_roles_payload_def str_eval)

lemma extract_permissions: "permissions_json_str permissions_payload = permissions_payload"
  by (simp add: permissions_json_str_def permissions_payload_def str_eval)

lemma extract_braces: "roles_json_str (u ''{}'') = u ''{}''"
  by (simp add: roles_json_str_def str_eval)

lemma extract_oops: "roles_json_str (u ''oops'') = u ''oops''"
  by (simp add: roles_json_str_def str_eval)

lemma payloads_distinct:
  "permissions_payload \<noteq> roles_payload" "empty_roles_payload \<noteq> roles_payload"
  "empty_roles_payload \<noteq> permissions_payload" "u ''{}'' \<noteq> roles_payload"
  "u ''{}'' \<noteq> permissions_payload" "u ''{}'' \<noteq> empty_roles_payload"
  "u ''oops'' \<noteq> roles_payload"
  "u ''oops'' \<noteq> permissions_payload" "u ''oops'' \<noteq> empty_roles_payload" "u ''oops'' \<noteq> u ''{}''"
  by (simp_all add: permissions_payload_def roles_payload_def empty_roles_payload_def u_def)

lemma loads_examples:
  "json_loads example_builtins roles_payload = Inr roles_decoded"
  "json_loads example_builtins permissions_payload = Inr (JDict [(u ''permissions'', permissions_value)])"
  "json_loads example_builtins empty_roles_payload = Inr (JDict [(u ''roles'', JList [])])"
  "json_loads example_builtins (u ''{}'') = Inr (JDict [])"
  "json_loads example_builtins (u ''oops'') = Inl JSONDecodeError"
  by (simp_all add: example_builtins_def payloads_distinct)

lemma extract_scalar: "roles_json_str scalar_payload = scalar_payload"
  by (simp add: roles_json_str_def scalar_payload_def str_eval)

lemma extract_null_roles: "roles_json_str null_roles_payload = null_roles_payload"
  by (simp add: roles_json_str_def null_roles_payload_def str_eval)

lemma extract_null_permissions:
  "roles_json_str null_permissions_payload = null_permissions_payload"
  by (simp add: roles_json_str_def null_permissions_payload_def str_eval)

lemma wide_payloads_distinct:
  "null_roles_payload \<noteq> scalar_payload" "null_permissions_payload \<noteq> scalar_payload"
  "null_permissions_payload \<noteq> null_roles_payload"
  by (simp_all add: scalar_payload_def null_roles_payload_def null_permissions_payload_def u_def)

lemma loads_wide:
  "json_loads wide_builtins scalar_payload = Inr (JInt 5)"
  "json_loads wide_builtins null_roles_payload = Inr (JDict [(u ''roles'', JNull)])"
  "json_loads wide_builtins null_permissions_payload = Inr (JDict [(u ''permissions'', JNull)])"
  by (simp_all add: wide_builtins_def wide_payloads_distinct)

lemmas value_eval = validate_role_def required_fields_def py_in_def make_role_def py_getitem_def
  py_get_def py_int_def py_str_def ensure_list_def strip_def isspace_def u_def

lemma validate_planner: "validate_role example_builtins planner_json = Some planner"
  by (simp add: value_eval planner_json_def planner_def)

lemma validate_coder: "validate_role example_builtins coder_json = Some coder"
  by (simp add: value_eval coder_json_def coder_fields_def coder_def)

lemma validate_tester: "validate_role example_builtins tester_json = Some tester"
  by (simp add: value_eval tester_json_def tester_def)

lemma parse_example_roles:
  "parse_roles_from_response example_builtins roles_response = Inr (JList [planner_json, coder_json])"
  by (simp add: parse_roles_from_response_def extract_example_roles loads_examples roles_decoded_def
        py_in_def py_getitem_def)

lemma validate_example_roles:
  "2 \<le> hi \<Longrightarrow> validate_generated_roles example_builtins (JList [planner_json, coder_json])
     (role_request t (lo, hi)) = Inr [planner, coder]"
  by (simp add: validate_generated_roles_def role_request_def py_iter_def List.map_filter_def
        validate_planner validate_coder)

lemma generate_example_roles:
  "2 \<le> hi \<Longrightarrow> generate_roles example_builtins example_distributor sent t (lo, hi)
     = (Inr [planner, coder], sent @ [build_role_generation_prompt (role_request t (lo, hi))])"
  by (simp add: generate_roles_unfold call_example_roles parse_example_roles validate_example_roles)

lemma assign_example_permissions:
  "assign_collaboration_permissions example_builtins example_distributor sent roles
     = (Inr permissions_value, sent @ [build_permission_assignment_prompt roles])"
  by (simp add: assign_collaboration_permissions_def call_example_permissions
        parse_permissions_from_response_def extract_permissions loads_examples py_in_def py_getitem_def)

section \<open>Role generation never returns an empty list\<close>

text \<open>
  C1: when no candidate role is left after validation, \<open>generate_roles\<close> raises (a
  \<open>RuntimeError\<close> saying that the result is empty) instead of returning; hence
  \<open>generate_roles\<close> never returns the empty list.
\<close>

theorem generate_roles_never_empty:
  "(call_llm_api self sent (build_role_generation_prompt (role_request t count_range))
        = (Inr response, sent')
      \<longrightarrow> parse_roles_from_response b response = Inr raw
      \<longrightarrow> validate_generated_roles b raw (role_request t count_range) = Inr []
      \<longrightarrow> generate_roles b self sent t count_range = (Inl (RuntimeError msg_roles_empty), sent'))
   \<and> fst (generate_roles b self sent t count_range) \<noteq> Inr []"
  by (auto simp: generate_roles_unfold split: prod.splits sum.splits)

theorem generate_roles_never_empty_witness:
  "call_llm_api (answering empty_roles_payload) []
       (build_role_generation_prompt (role_request example_task (3, 4)))
     = (Inr empty_roles_payload, [build_role_generation_prompt (role_request example_task (3, 4))])
   \<and> parse_roles_from_response example_builtins empty_roles_payload = Inr (JList [])
   \<and> validate_generated_roles example_builtins (JList []) (role_request example_task (3, 4))
       = Inr []
   \<and> generate_roles example_builtins (answering empty_roles_payload) [] example_task (3, 4)
       = (Inl (RuntimeError msg_roles_empty),
          [build_role_generation_prompt (role_request example_task (3, 4))])"
proof -
  have call: "call_llm_api (answering empty_roles_payload) []
       (build_role_generation_prompt (role_request example_task (3, 4)))
     = (Inr empty_roles_payload, [build_role_generation_prompt (role_request example_task (3, 4))])"
    by (simp add: call_answering)
  have parse: "parse_roles_from_response example_builtins empty_roles_payload = Inr (JList [])"
    by (simp add: parse_roles_from_response_def extract_empty_roles loads_examples py_in_def
          py_getitem_def)
  have none: "validate_generated_roles example_builtins (JList []) (role_request example_task (3, 4))
       = Inr []"
    by (simp add: validate_generated_roles_def role_request_def py_iter_def List.map_filter_def)
  show ?thesis
    using generate_roles_never_empty[of "answering empty_roles_payload" "[]" example_task "(3, 4)"
        empty_roles_payload _ example_builtins "JList []"] call parse none
    by simp
qed

section \<open>Both parsers decode the same text\<close>

lemma parse_roles_instance:
  "parse_roles_from_response b response
     = parse_with_key b (u ''roles'') (Inr (JList [])) msg_roles_undecodable response"
  by (simp add: parse_roles_from_response_def parse_with_key_def)

lemma parse_permissions_instance:
  "parse_permissions_from_response b response roles
     = parse_with_key b (u ''permissions'') (Inl (RuntimeError msg_permissions_missing))
         msg_permissions_undecodable response"
  by (simp add: parse_permissions_from_response_def parse_with_key_def json_str_same)

lemma parse_with_key_undecodable:
  "json_loads b (roles_json_str response) = Inl e \<Longrightarrow>
     parse_with_key b key absent msg response
       = Inl (if e = JSONDecodeError then RuntimeError msg else e)"
  by (simp add: parse_with_key_def)

lemma parse_with_key_dict:
  "json_loads b (roles_json_str response) = Inr (JDict kvs) \<Longrightarrow>
     parse_with_key b key absent msg response
       = (case map_of kvs key of None \<Rightarrow> absent | Some v \<Rightarrow> Inr v)"
  by (auto simp: parse_with_key_def py_in_dict py_getitem_def split: option.splits)

lemma parse_with_key_other:
  assumes "json_loads b (roles_json_str response) = Inr data" and "\<forall>kvs. data \<noteq> JDict kvs"
  shows "parse_with_key b key absent msg response
       = (if is_scalar data \<or> key_occurs key data then Inl TypeError else absent)"
  using assms
  by (cases data)
     (simp_all add: parse_with_key_def py_in_simps py_getitem_def is_scalar_def key_occurs_def)

text \<open>
  C7, as the code has it: the permission parser and the role parser select the same text
  of a response for decoding, and each of them consults \<open>json.loads\<close> on that text
  only.  Both are one procedure, up to the key they read, the result for an absent key
  (the empty list for roles, a \<open>RuntimeError\<close> for permissions) and the message of
  the \<open>RuntimeError\<close> that replaces a \<open>JSONDecodeError\<close>.  So any other exception of the
  decoder passes through both unchanged, from a decoded object each returns the value under
  its own key, and a decoded value that is not an object gives a \<open>TypeError\<close> in both
  when it is a scalar or holds the key, and the result for an absent key otherwise.
\<close>

theorem same_extraction:
  "permissions_json_str response = roles_json_str response
   \<and> (json_loads b (roles_json_str response) = json_loads b' (roles_json_str response)
        \<longrightarrow> parse_roles_from_response b response = parse_roles_from_response b' response
          \<and> parse_permissions_from_response b response roles
              = parse_permissions_from_response b' response roles)
   \<and> parse_roles_from_response b response
       = parse_with_key b (u ''roles'') (Inr (JList [])) msg_roles_undecodable response
   \<and> parse_permissions_from_response b response roles
       = parse_with_key b (u ''permissions'') (Inl (RuntimeError msg_permissions_missing))
           msg_permissions_undecodable response
   \<and> (json_loads b (roles_json_str response) = Inl e \<longrightarrow>
        parse_roles_from_response b response
          = Inl (if e = JSONDecodeError then RuntimeError msg_roles_undecodable else e)
        \<and> parse_permissions_from_response b response roles
          = Inl (if e = JSONDecodeError then RuntimeError msg_permissions_undecodable else e))
   \<and> (json_loads b (roles_json_str response) = Inr (JDict kvs) \<longrightarrow>
        parse_roles_from_response b response
          = Inr (case map_of kvs (u ''roles'') of None \<Rightarrow> JList [] | Some v \<Rightarrow> v)
        \<and> parse_permissions_from_response b response roles
          = (case map_of kvs (u ''permissions'') of
               None \<Rightarrow> Inl (RuntimeError msg_permissions_missing)
             | Some v \<Rightarrow> Inr v))
   \<and> (json_loads b (roles_json_str response) = Inr data \<and> (\<forall>kvs. data \<noteq> JDict kvs) \<longrightarrow>
        parse_roles_from_response b response
          = (if is_scalar data \<or> key_occurs (u ''roles'') data then Inl TypeError
             else Inr (JList []))
        \<and> parse_permissions_from_response b response roles
          = (if is_scalar data \<or> key_occurs (u ''permissions'') data then Inl TypeError
             else Inl (RuntimeError msg_permissions_missing)))"
proof (intro conjI impI)
  show same: "permissions_json_str response = roles_json_str response"
    by (rule json_str_same)
  show "parse_roles_from_response b response
       = parse_with_key b (u ''roles'') (Inr (JList [])) msg_roles_undecodable response"
    by (rule parse_roles_instance)
  show "parse_permissions_from_response b response roles
       = parse_with_key b (u ''permissions'') (Inl (RuntimeError msg_permissions_missing))
           msg_permissions_undecodable response"
    by (rule parse_permissions_instance)
  { assume "json_loads b (roles_json_str response) = json_loads b' (roles_json_str response)"
    then show "parse_roles_from_response b response = parse_roles_from_response b' response"
      and "parse_permissions_from_response b response roles
              = parse_permissions_from_response b' response roles"
      by (simp_all add: parse_roles_from_response_def parse_permissions_from_response_def same) }
  { assume "json_loads b (roles_json_str response) = Inl e"
    then show "parse_roles_from_response b response
          = Inl (if e = JSONDecodeError then RuntimeError msg_roles_undecodable else e)"
      and "parse_permissions_from_response b response roles
          = Inl (if e = JSONDecodeError then RuntimeError msg_permissions_undecodable else e)"
      by (simp_all add: parse_roles_instance parse_permissions_instance
            parse_with_key_undecodable) }
  { assume "json_loads b (roles_json_str response) = Inr (JDict kvs)"
    then show "parse_roles_from_response b response
          = Inr (case map_of kvs (u ''roles'') of None \<Rightarrow> JList [] | Some v \<Rightarrow> v)"
      and "parse_permissions_from_response b response roles
          = (case map_of kvs (u ''permissions'') of
               None \<Rightarrow> Inl (RuntimeError msg_permissions_missing)
             | Some v \<Rightarrow> Inr v)"
      by (simp_all add: parse_roles_instance parse_permissions_instance parse_with_key_dict
            split: option.splits) }
  { assume "json_loads b (roles_json_str response) = Inr data \<and> (\<forall>kvs. data \<noteq> JDict kvs)"
    then show "parse_roles_from_response b response
          = (if is_scalar data \<or> key_occurs (u ''roles'') data then Inl TypeError
             else Inr (JList []))"
      and "parse_permissions_from_response b response roles
          = (if is_scalar data \<or> key_occurs (u ''permissions'') data then Inl TypeError
             else Inl (RuntimeError msg_permissions_missing))"
      by (simp_all add: parse_roles_instance parse_permissions_instance parse_with_key_other) }
qed

theorem same_extraction_witness:
  "json_loads example_builtins (roles_json_str roles_response)
     = json_loads (example_builtins\<lparr>int_of_str := \<lambda>s. None\<rparr>) (roles_json_str roles_response)
   \<and> permissions_json_str roles_response = roles_payload
   \<and> parse_roles_from_response (example_builtins\<lparr>int_of_str := \<lambda>s. None\<rparr>) roles_response
       = Inr (JList [planner_json, coder_json])
   \<and> json_loads example_builtins (roles_json_str permissions_payload)
       = Inr (JDict [(u ''permissions'', permissions_value)])
   \<and> parse_roles_from_response example_builtins permissions_payload = Inr (JList [])
   \<and> parse_permissions_from_response example_builtins permissions_payload []
       = Inr permissions_value
   \<and> json_loads example_builtins (roles_json_str (u ''oops'')) = Inl JSONDecodeError
   \<and> parse_roles_from_response example_builtins (u ''oops'')
       = Inl (RuntimeError msg_roles_undecodable)
   \<and> parse_permissions_from_response example_builtins (u ''oops'') []
       = Inl (RuntimeError msg_permissions_undecodable)
   \<and> json_loads wide_builtins (roles_json_str scalar_payload) = Inr (JInt 5)
   \<and> (\<forall>kvs. JInt 5 \<noteq> JDict kvs)
   \<and> parse_roles_from_response wide_builtins scalar_payload = Inl TypeError
   \<and> parse_permissions_from_response wide_builtins scalar_payload [] = Inl TypeError"
proof -
  have l: "json_loads example_builtins (roles_json_str permissions_payload)
       = Inr (JDict [(u ''permissions'', permissions_value)])"
    using extract_permissions by (simp add: json_str_same loads_examples)
  have k: "map_of [(u ''permissions'', permissions_value)] (u ''roles'') = None"
    "map_of [(u ''permissions'', permissions_value)] (u ''permissions'') = Some permissions_value"
    by (simp_all add: u_def)
  have bad: "json_loads example_builtins (roles_json_str (u ''oops'')) = Inl JSONDecodeError"
    by (simp add: extract_oops loads_examples)
  have five: "json_loads wide_builtins (roles_json_str scalar_payload) = Inr (JInt 5)"
    by (simp add: extract_scalar loads_wide)
  have sc: "is_scalar (JInt 5)" by (simp add: is_scalar_def)
  have nd: "\<forall>kvs. JInt 5 \<noteq> JDict kvs" by simp
  have same: "json_loads example_builtins (roles_json_str roles_response)
     = json_loads (example_builtins\<lparr>int_of_str := \<lambda>s. None\<rparr>) (roles_json_str roles_response)"
    by (simp add: example_builtins_def)
  from same same_extraction[where response = roles_response and b = example_builtins
        and b' = "example_builtins\<lparr>int_of_str := \<lambda>s. None\<rparr>" and roles = "[]"]
  have r: "permissions_json_str roles_response = roles_json_str roles_response"
    "parse_roles_from_response example_builtins roles_response
       = parse_roles_from_response (example_builtins\<lparr>int_of_str := \<lambda>s. None\<rparr>) roles_response"
    by blast+
  from l same_extraction[where response = permissions_payload and b = example_builtins
        and roles = "[]" and kvs = "[(u ''permissions'', permissions_value)]"]
  have p: "parse_roles_from_response example_builtins permissions_payload
       = Inr (case map_of [(u ''permissions'', permissions_value)] (u ''roles'') of
                None \<Rightarrow> JList [] | Some v \<Rightarrow> v)"
    "parse_permissions_from_response example_builtins permissions_payload []
       = (case map_of [(u ''permissions'', permissions_value)] (u ''permissions'') of
            None \<Rightarrow> Inl (RuntimeError msg_permissions_missing) | Some v \<Rightarrow> Inr v)"
    by blast+
  from bad same_extraction[where response = "u ''oops''" and b = example_builtins
        and roles = "[]" and e = JSONDecodeError]
  have o: "parse_roles_from_response example_builtins (u ''oops'')
       = Inl (if JSONDecodeError = JSONDecodeError then RuntimeError msg_roles_undecodable
              else JSONDecodeError)"
    "parse_permissions_from_response example_builtins (u ''oops'') []
       = Inl (if JSONDecodeError = JSONDecodeError then RuntimeError msg_permissions_undecodable
              else JSONDecodeError)"
    by blast+
  from five nd same_extraction[where response = scalar_payload and b = wide_builtins
        and roles = "[]" and data = "JInt 5"]
  have n: "parse_roles_from_response wide_builtins scalar_payload
       = (if is_scalar (JInt 5) \<or> key_occurs (u ''roles'') (JInt 5) then Inl TypeError
          else Inr (JList []))"
    "parse_permissions_from_response wide_builtins scalar_payload []
       = (if is_scalar (JInt 5) \<or> key_occurs (u ''permissions'') (JInt 5) then Inl TypeError
          else Inl (RuntimeError msg_permissions_missing))"
    by blast+
  from r(2) have r2: "parse_roles_from_response (example_builtins\<lparr>int_of_str := \<lambda>s. None\<rparr>)
      roles_response = Inr (JList [planner_json, coder_json])"
    by (simp add: parse_example_roles)
  from same r(1) r2 l p o bad five n show ?thesis
    by (simp add: k sc extract_example_roles u_def)
qed

text \<open>
  C7 as stated fails on a decoded object that has neither key, and on text that is not
  JSON: the keys read are not the only difference between the parsers, for the role
  parser returns the empty list where the permission parser raises, and the two raise
  errors with different messages.
\<close>

theorem absent_key_counterexample:
  "json_loads example_builtins (roles_json_str (u ''{}'')) = Inr (JDict [])
   \<and> json_loads example_builtins (permissions_json_str (u ''{}'')) = Inr (JDict [])
   \<and> parse_roles_from_response example_builtins (u ''{}'') = Inr (JList [])
   \<and> parse_permissions_from_response example_builtins (u ''{}'') []
       = Inl (RuntimeError msg_permissions_missing)
   \<and> json_loads example_builtins (roles_json_str (u ''oops'')) = Inl JSONDecodeError
   \<and> parse_roles_from_response example_builtins (u ''oops'')
       = Inl (RuntimeError msg_roles_undecodable)
   \<and> parse_permissions_from_response example_builtins (u ''oops'') []
       = Inl (RuntimeError msg_permissions_undecodable)
   \<and> msg_roles_undecodable \<noteq> msg_permissions_undecodable"
  by (simp add: parse_roles_from_response_def parse_permissions_from_response_def json_str_same
        extract_braces extract_oops loads_examples py_in_dict msg_roles_undecodable_def
        msg_permissions_undecodable_def)

section \<open>One call of the service per operation\<close>

text \<open>
  C8: a run of \<open>generate_roles\<close> that returns roles has sent exactly one prompt to the
  text-generation service, and a run of \<open>assign_collaboration_permissions\<close> that returns
  has sent exactly one more; no run of either sends more than one.
\<close>

theorem one_call_each:
  "(fst (generate_roles b self sent t count_range) = Inr rs \<longrightarrow>
      snd (generate_roles b self sent t count_range)
        = sent @ [build_role_generation_prompt (role_request t count_range)])
   \<and> (fst (assign_collaboration_permissions b self sent2 rs) = Inr perms \<longrightarrow>
      snd (assign_collaboration_permissions b self sent2 rs)
        = sent2 @ [build_permission_assignment_prompt rs])
   \<and> length (snd (generate_roles b self sent t count_range)) \<le> Suc (length sent)
   \<and> length (snd (assign_collaboration_permissions b self sent2 rs)) \<le> Suc (length sent2)"
  by (auto simp: generate_roles_unfold assign_collaboration_permissions_def call_llm_api_def Let_def
        split: prod.splits sum.splits option.splits if_splits)

theorem one_call_each_witness:
  "fst (generate_roles example_builtins example_distributor [] example_task (3, 4))
     = Inr [planner, coder]
   \<and> snd (generate_roles example_builtins example_distributor [] example_task (3, 4))
     = [build_role_generation_prompt (role_request example_task (3, 4))]
   \<and> fst (assign_collaboration_permissions example_builtins example_distributor
        [build_role_generation_prompt (role_request example_task (3, 4))] [planner, coder])
     = Inr permissions_value
   \<and> snd (assign_collaboration_permissions example_builtins example_distributor
        [build_role_generation_prompt (role_request example_task (3, 4))] [planner, coder])
     = [build_role_generation_prompt (role_request example_task (3, 4)),
        build_permission_assignment_prompt [planner, coder]]"
proof -
  have g: "fst (generate_roles example_builtins example_distributor [] example_task (3, 4))
     = Inr [planner, coder]"
    by (simp add: generate_example_roles)
  have a: "fst (assign_collaboration_permissions example_builtins example_distributor
        [build_role_generation_prompt (role_request example_task (3, 4))] [planner, coder])
     = Inr permissions_value"
    by (simp add: assign_example_permissions)
  show ?thesis
    using one_call_each[of example_builtins example_distributor "[]" example_task "(3, 4)"
        "[planner, coder]" "[build_role_generation_prompt (role_request example_task (3, 4))]"
        permissions_value] g a
    by simp
qed

section \<open>Permission assignment\<close>

text \<open>
  C6: \<open>assign_collaboration_permissions\<close> raises when the text of the response cannot be
  decoded (a \<open>RuntimeError\<close> for a \<open>JSONDecodeError\<close>) and when the decoded object has no
  \<open>permissions\<close> key (a \<open>RuntimeError\<close>); whenever it returns, the value it returns is
  the value under the \<open>permissions\<close> key of the object decoded from the response.
\<close>

theorem assign_permissions_result:
  "(naga_conversation self = Some service
      \<and> service sent (build_permission_assignment_prompt roles) = Inr response \<longrightarrow>
        (json_loads b (permissions_json_str response) = Inl e \<longrightarrow>
           fst (assign_collaboration_permissions b self sent roles)
             = Inl (if e = JSONDecodeError then RuntimeError msg_permissions_undecodable else e))
      \<and> (json_loads b (permissions_json_str response) = Inr (JDict kvs)
           \<and> map_of kvs (u ''permissions'') = None \<longrightarrow>
           fst (assign_collaboration_permissions b self sent roles)
             = Inl (RuntimeError msg_permissions_missing)))
   \<and> (fst (assign_collaboration_permissions b self sent roles) = Inr perms \<longrightarrow>
        (\<exists>service response kvs.
           naga_conversation self = Some service
           \<and> service sent (build_permission_assignment_prompt roles) = Inr response
           \<and> json_loads b (permissions_json_str response) = Inr (JDict kvs)
           \<and> map_of kvs (u ''permissions'') = Some perms))"
  by (auto simp: assign_collaboration_permissions_def call_llm_api_def Let_def
        parse_permissions_from_response_def py_in_def py_getitem_def map_of_eq_None_iff
        split: prod.splits sum.splits option.splits if_splits json.splits)

theorem assign_permissions_result_witness:
  "naga_conversation (answering (u ''oops'')) = Some (\<lambda>sent p. Inr (u ''oops''))
   \<and> json_loads example_builtins (permissions_json_str (u ''oops'')) = Inl JSONDecodeError
   \<and> fst (assign_collaboration_permissions example_builtins (answering (u ''oops'')) [] [planner])
       = Inl (RuntimeError msg_permissions_undecodable)
   \<and> naga_conversation (answering (u ''{}'')) = Some (\<lambda>sent p. Inr (u ''{}''))
   \<and> json_loads example_builtins (permissions_json_str (u ''{}'')) = Inr (JDict [])
   \<and> map_of [] (u ''permissions'') = (None :: json option)
   \<and> fst (assign_collaboration_permissions example_builtins (answering (u ''{}'')) [] [planner])
       = Inl (RuntimeError msg_permissions_missing)
   \<and> fst (assign_collaboration_permissions example_builtins example_distributor [] [planner, coder])
       = Inr permissions_value
   \<and> json_loads example_builtins (permissions_json_str permissions_payload)
       = Inr (JDict [(u ''permissions'', permissions_value)])"
proof -
  have bad: "json_loads example_builtins (permissions_json_str (u ''oops'')) = Inl JSONDecodeError"
    by (simp add: json_str_same extract_oops loads_examples)
  have bare: "json_loads example_builtins (permissions_json_str (u ''{}'')) = Inr (JDict [])"
    by (simp add: json_str_same extract_braces loads_examples)
  have good: "fst (assign_collaboration_permissions example_builtins example_distributor []
       [planner, coder]) = Inr permissions_value"
    by (simp add: assign_example_permissions)
  have dec: "json_loads example_builtins (permissions_json_str permissions_payload)
       = Inr (JDict [(u ''permissions'', permissions_value)])"
    by (simp add: extract_permissions loads_examples)
  show ?thesis
    using assign_permissions_result[of "answering (u ''oops'')" "\<lambda>sent p. Inr (u ''oops'')" "[]"
        "[planner]" "u ''oops''" example_builtins JSONDecodeError "[]" permissions_value]
      assign_permissions_result[of "answering (u ''{}'')" "\<lambda>sent p. Inr (u ''{}'')" "[]"
        "[planner]" "u ''{}''" example_builtins JSONDecodeError "[]" permissions_value]
      assign_permissions_result[of example_distributor "\<lambda>sent p. Inr (u ''{}'')" "[]"
        "[planner, coder]" "u ''{}''" example_builtins JSONDecodeError "[]" permissions_value]
      bad bare good dec
    by (simp add: answering_def)
qed

section \<open>Malformed and structurally wrong payloads\<close>

lemma make_role_non_dict: "(\<forall>kvs. v \<noteq> JDict kvs) \<Longrightarrow> make_role b v = Inl TypeError"
  by (cases v) (simp_all add: make_role_def py_getitem_def)

lemma validate_role_non_dict: "(\<forall>kvs. v \<noteq> JDict kvs) \<Longrightarrow> validate_role b v = None"
  by (simp add: validate_role_def make_role_non_dict split: sum.splits)

lemma map_filter_all_None: "(\<forall>x\<in>set xs. f x = None) \<Longrightarrow> List.map_filter f xs = []"
  by (simp add: List.map_filter_def filter_empty_conv)

lemma py_slice_Nil: "py_slice [] a c = []"
  by (simp add: py_slice_def)

lemma validate_no_survivor:
  assumes "py_iter raw = Inr items" and "\<forall>x\<in>set items. validate_role b x = None"
  shows "validate_generated_roles b raw request = Inr []"
  using assms
  by (simp add: validate_generated_roles_def map_filter_all_None py_slice_Nil sorted_by_priority_def
      split: prod.splits)

lemma validate_not_list:
  assumes "\<forall>xs. raw \<noteq> JList xs"
  shows "validate_generated_roles b raw request = (if is_scalar raw then Inl TypeError else Inr [])"
proof (cases raw)
  case (JStr s)
  then have "py_iter raw = Inr (map (\<lambda>c. JStr [c]) s)" by (simp add: py_iter_def)
  then have "validate_generated_roles b raw request = Inr []"
    by (rule validate_no_survivor) (auto simp: validate_role_non_dict)
  with JStr show ?thesis by (simp add: is_scalar_def)
next
  case (JDict kvs)
  then have "py_iter raw = Inr (map (\<lambda>kv. JStr (fst kv)) kvs)" by (simp add: py_iter_def)
  then have "validate_generated_roles b raw request = Inr []"
    by (rule validate_no_survivor) (auto simp: validate_role_non_dict)
  with JDict show ?thesis by (simp add: is_scalar_def)
next
  case (JList xs)
  with assms show ?thesis by simp
qed (simp_all add: validate_generated_roles_def py_iter_def is_scalar_def split: prod.splits)

lemma validate_empty_list: "validate_generated_roles b (JList []) request = Inr []"
  by (rule validate_no_survivor[of _ "[]"]) (simp_all add: py_iter_def)

lemma parse_roles_undecodable:
  "json_loads b (roles_json_str response) = Inl e \<Longrightarrow>
     parse_roles_from_response b response
       = Inl (if e = JSONDecodeError then RuntimeError msg_roles_undecodable else e)"
  by (simp add: parse_roles_from_response_def)

lemma parse_roles_wrong:
  assumes "json_loads b (roles_json_str response) = Inr data"
      and "structurally_wrong (u ''roles'') data"
  shows "parse_roles_from_response b response
           = (if is_scalar data \<or> key_occurs (u ''roles'') data then Inl TypeError
              else Inr (JList []))"
  using assms
  by (cases data)
     (auto simp: parse_roles_from_response_def structurally_wrong_def py_in_simps py_getitem_def
        is_scalar_def key_occurs_def)

lemma parse_roles_present:
  assumes "json_loads b (roles_json_str response) = Inr (JDict kvs)"
      and "map_of kvs (u ''roles'') = Some v"
  shows "parse_roles_from_response b response = Inr v"
  using assms by (simp add: parse_roles_from_response_def py_in_dict py_getitem_def)

lemma generate_roles_after_call:
  assumes "naga_conversation self = Some service"
      and "service sent (build_role_generation_prompt (role_request t count_range)) = Inr response"
  shows "generate_roles b self sent t count_range =
     (case parse_roles_from_response b response of
        Inl e \<Rightarrow> Inl e
      | Inr raw \<Rightarrow>
          (case validate_generated_roles b raw (role_request t count_range) of
             Inl e \<Rightarrow> Inl e
           | Inr validated_roles \<Rightarrow>
               if validated_roles = [] then Inl (RuntimeError msg_roles_empty)
               else Inr validated_roles),
      sent @ [build_role_generation_prompt (role_request t count_range)])"
  using assms by (simp add: generate_roles_unfold call_llm_api_def split: sum.splits)

lemma assign_after_call:
  assumes "naga_conversation self = Some service"
      and "service sent (build_permission_assignment_prompt roles) = Inr response"
  shows "assign_collaboration_permissions b self sent roles =
     (parse_permissions_from_response b response roles,
      sent @ [build_permission_assignment_prompt roles])"
  using assms by (simp add: assign_collaboration_permissions_def call_llm_api_def)

lemma parse_permissions_wrong:
  assumes "json_loads b (permissions_json_str response) = Inr data"
      and "structurally_wrong (u ''permissions'') data"
  shows "parse_permissions_from_response b response roles
           = Inl (if is_scalar data \<or> key_occurs (u ''permissions'') data then TypeError
                  else RuntimeError msg_permissions_missing)"
  using assms
  by (cases data)
     (auto simp: parse_permissions_from_response_def structurally_wrong_def py_in_simps
        py_getitem_def is_scalar_def key_occurs_def)

lemma parse_permissions_present:
  assumes "json_loads b (permissions_json_str response) = Inr (JDict kvs)"
      and "map_of kvs (u ''permissions'') = Some v"
  shows "parse_permissions_from_response b response roles = Inr v"
  using assms by (simp add: parse_permissions_from_response_def py_in_dict py_getitem_def)

lemma generate_roles_wrong:
  assumes call: "naga_conversation self = Some service"
     "service sent (build_role_generation_prompt (role_request t count_range)) = Inr response"
    and dec: "json_loads b (roles_json_str response) = Inr data"
    and wrong: "structurally_wrong (u ''roles'') data"
  shows "fst (generate_roles b self sent t count_range)
           = Inl (if is_scalar data \<or> key_occurs (u ''roles'') data then TypeError
                  else RuntimeError msg_roles_empty)"
  by (simp add: generate_roles_after_call[OF call] parse_roles_wrong[OF dec wrong]
        validate_empty_list)

lemma generate_roles_not_array:
  assumes call: "naga_conversation self = Some service"
     "service sent (build_role_generation_prompt (role_request t count_range)) = Inr response"
    and dec: "json_loads b (roles_json_str response) = Inr (JDict kvs)"
    and val: "map_of kvs (u ''roles'') = Some v" and other: "\<forall>xs. v \<noteq> JList xs"
  shows "fst (generate_roles b self sent t count_range)
           = Inl (if is_scalar v then TypeError else RuntimeError msg_roles_empty)"
  by (simp add: generate_roles_after_call[OF call] parse_roles_present[OF dec val]
        validate_not_list[OF other])

lemma generate_scalar:
  "fst (generate_roles wide_builtins (answering scalar_payload) [] example_task (3, 4))
     = Inl TypeError"
  by (simp add: generate_roles_after_call[of _ "\<lambda>sent p. Inr scalar_payload"] answering_def
        parse_roles_from_response_def extract_scalar loads_wide py_in_simps)

lemma assign_scalar:
  "fst (assign_collaboration_permissions wide_builtins (answering scalar_payload) [] [planner])
     = Inl TypeError"
  by (simp add: assign_after_call[of _ "\<lambda>sent p. Inr scalar_payload"] answering_def
        parse_permissions_from_response_def json_str_same extract_scalar loads_wide py_in_simps)

lemma generate_null_roles:
  "fst (generate_roles wide_builtins (answering null_roles_payload) [] example_task (3, 4))
     = Inl TypeError"
  by (simp add: generate_roles_after_call[of _ "\<lambda>sent p. Inr null_roles_payload"] answering_def
        parse_roles_from_response_def extract_null_roles loads_wide py_in_simps py_getitem_def
        validate_generated_roles_def py_iter_def role_request_def)

lemma assign_null_permissions:
  "fst (assign_collaboration_permissions wide_builtins (answering null_permissions_payload) []
          [planner]) = Inr JNull"
  by (simp add: assign_after_call[of _ "\<lambda>sent p. Inr null_permissions_payload"] answering_def
        parse_permissions_from_response_def json_str_same extract_null_permissions loads_wide
        py_in_simps py_getitem_def)

text \<open>
  C5, as the code has it.  Text that \<open>json.loads\<close> rejects with a \<open>JSONDecodeError\<close>
  makes the operation raise the \<open>RuntimeError\<close> of its parser; any other exception of the
  decoder passes through.  A decoded value that is not a mapping, or a mapping without the
  key, makes the operation raise: a bare \<open>TypeError\<close> when the value is a scalar or is a
  list or string that holds the key, and otherwise the \<open>RuntimeError\<close> of the operation
  (an empty result for roles, a missing field for permissions).  A \<open>roles\<close> entry that
  is not an array makes \<open>generate_roles\<close> raise, a \<open>TypeError\<close> for a scalar and the
  \<open>RuntimeError\<close> for an empty result otherwise.  The value under a \<open>permissions\<close> key
  that is present is returned, whatever it is; \<open>generate_roles\<close> never returns the empty
  list.
\<close>

theorem malformed_payload_fails:
  "(naga_conversation self = Some service \<longrightarrow>
     (service sent (build_role_generation_prompt (role_request t count_range)) = Inr response \<longrightarrow>
        (json_loads b (roles_json_str response) = Inl e \<longrightarrow>
           fst (generate_roles b self sent t count_range)
             = Inl (if e = JSONDecodeError then RuntimeError msg_roles_undecodable else e))
        \<and> (json_loads b (roles_json_str response) = Inr data
             \<and> structurally_wrong (u ''roles'') data \<longrightarrow>
           fst (generate_roles b self sent t count_range)
             = Inl (if is_scalar data \<or> key_occurs (u ''roles'') data then TypeError
                    else RuntimeError msg_roles_empty))
        \<and> (json_loads b (roles_json_str response) = Inr (JDict kvs)
             \<and> map_of kvs (u ''roles'') = Some v \<and> (\<forall>xs. v \<noteq> JList xs) \<longrightarrow>
           fst (generate_roles b self sent t count_range)
             = Inl (if is_scalar v then TypeError else RuntimeError msg_roles_empty)))
     \<and> (service sent2 (build_permission_assignment_prompt roles) = Inr response2 \<longrightarrow>
        (json_loads b (permissions_json_str response2) = Inl e2 \<longrightarrow>
           fst (assign_collaboration_permissions b self sent2 roles)
             = Inl (if e2 = JSONDecodeError then RuntimeError msg_permissions_undecodable else e2))
        \<and> (json_loads b (permissions_json_str response2) = Inr data2
             \<and> structurally_wrong (u ''permissions'') data2 \<longrightarrow>
           fst (assign_collaboration_permissions b self sent2 roles)
             = Inl (if is_scalar data2 \<or> key_occurs (u ''permissions'') data2 then TypeError
                    else RuntimeError msg_permissions_missing))
        \<and> (json_loads b (permissions_json_str response2) = Inr (JDict kvs2)
             \<and> map_of kvs2 (u ''permissions'') = Some v2 \<longrightarrow>
           fst (assign_collaboration_permissions b self sent2 roles) = Inr v2)))
   \<and> fst (generate_roles b self sent t count_range) \<noteq> Inr []"
proof (intro impI conjI)
  assume call: "naga_conversation self = Some service"
    "service sent (build_role_generation_prompt (role_request t count_range)) = Inr response"
  { assume "json_loads b (roles_json_str response) = Inl e"
    then show "fst (generate_roles b self sent t count_range)
           = Inl (if e = JSONDecodeError then RuntimeError msg_roles_undecodable else e)"
      by (simp add: generate_roles_after_call[OF call] parse_roles_undecodable) }
  { assume "json_loads b (roles_json_str response) = Inr data
           \<and> structurally_wrong (u ''roles'') data"
    then show "fst (generate_roles b self sent t count_range)
           = Inl (if is_scalar data \<or> key_occurs (u ''roles'') data then TypeError
                  else RuntimeError msg_roles_empty)"
      using generate_roles_wrong[OF call] by blast }
  { assume "json_loads b (roles_json_str response) = Inr (JDict kvs)
           \<and> map_of kvs (u ''roles'') = Some v \<and> (\<forall>xs. v \<noteq> JList xs)"
    then show "fst (generate_roles b self sent t count_range)
           = Inl (if is_scalar v then TypeError else RuntimeError msg_roles_empty)"
      using generate_roles_not_array[OF call] by blast }
next
  assume call: "naga_conversation self = Some service"
    "service sent2 (build_permission_assignment_prompt roles) = Inr response2"
  { assume "json_loads b (permissions_json_str response2) = Inl e2"
    then show "fst (assign_collaboration_permissions b self sent2 roles)
           = Inl (if e2 = JSONDecodeError then RuntimeError msg_permissions_undecodable else e2)"
      by (simp add: assign_after_call[OF call] parse_permissions_from_response_def) }
  { assume "json_loads b (permissions_json_str response2) = Inr data2
           \<and> structurally_wrong (u ''permissions'') data2"
    then show "fst (assign_collaboration_permissions b self sent2 roles)
           = Inl (if is_scalar data2 \<or> key_occurs (u ''permissions'') data2 then TypeError
                  else RuntimeError msg_permissions_missing)"
      using parse_permissions_wrong[of b response2 data2 roles]
      by (simp add: assign_after_call[OF call]) }
  { assume "json_loads b (permissions_json_str response2) = Inr (JDict kvs2)
           \<and> map_of kvs2 (u ''permissions'') = Some v2"
    then show "fst (assign_collaboration_permissions b self sent2 roles) = Inr v2"
      using parse_permissions_present[of b response2 kvs2 v2 roles]
      by (simp add: assign_after_call[OF call]) }
next
  show "fst (generate_roles b self sent t count_range) \<noteq> Inr []"
    by (auto simp: generate_roles_unfold split: prod.splits sum.splits)
qed

theorem malformed_payload_fails_witness:
  "naga_conversation (answering (u ''{}'')) = Some (\<lambda>sent p. Inr (u ''{}''))
   \<and> json_loads example_builtins (roles_json_str (u ''{}'')) = Inr (JDict [])
   \<and> structurally_wrong (u ''roles'') (JDict [])
   \<and> fst (generate_roles example_builtins (answering (u ''{}'')) [] example_task (3, 4))
       = Inl (RuntimeError msg_roles_empty)
   \<and> json_loads example_builtins (permissions_json_str (u ''{}'')) = Inr (JDict [])
   \<and> structurally_wrong (u ''permissions'') (JDict [])
   \<and> fst (assign_collaboration_permissions example_builtins (answering (u ''{}'')) [] [planner])
       = Inl (RuntimeError msg_permissions_missing)
   \<and> naga_conversation (answering (u ''oops'')) = Some (\<lambda>sent p. Inr (u ''oops''))
   \<and> json_loads example_builtins (roles_json_str (u ''oops'')) = Inl JSONDecodeError
   \<and> fst (generate_roles example_builtins (answering (u ''oops'')) [] example_task (3, 4))
       = Inl (RuntimeError msg_roles_undecodable)
   \<and> json_loads example_builtins (permissions_json_str (u ''oops'')) = Inl JSONDecodeError
   \<and> fst (assign_collaboration_permissions example_builtins (answering (u ''oops'')) [] [planner])
       = Inl (RuntimeError msg_permissions_undecodable)
   \<and> json_loads wide_builtins (roles_json_str scalar_payload) = Inr (JInt 5)
   \<and> structurally_wrong (u ''roles'') (JInt 5) \<and> is_scalar (JInt 5)
   \<and> fst (generate_roles wide_builtins (answering scalar_payload) [] example_task (3, 4))
       = Inl TypeError
   \<and> fst (assign_collaboration_permissions wide_builtins (answering scalar_payload) [] [planner])
       = Inl TypeError
   \<and> json_loads wide_builtins (roles_json_str null_roles_payload)
       = Inr (JDict [(u ''roles'', JNull)])
   \<and> map_of [(u ''roles'', JNull)] (u ''roles'') = Some JNull
   \<and> fst (generate_roles wide_builtins (answering null_roles_payload) [] example_task (3, 4))
       = Inl TypeError
   \<and> json_loads wide_builtins (permissions_json_str null_permissions_payload)
       = Inr (JDict [(u ''permissions'', JNull)])
   \<and> map_of [(u ''permissions'', JNull)] (u ''permissions'') = Some JNull
   \<and> fst (assign_collaboration_permissions wide_builtins (answering null_permissions_payload) []
        [planner]) = Inr JNull"
proof -
  have bare: "json_loads example_builtins (roles_json_str (u ''{}'')) = Inr (JDict [])"
    by (simp add: extract_braces loads_examples)
  have bad: "json_loads example_builtins (roles_json_str (u ''oops'')) = Inl JSONDecodeError"
    by (simp add: extract_oops loads_examples)
  have five: "json_loads wide_builtins (roles_json_str scalar_payload) = Inr (JInt 5)"
    by (simp add: extract_scalar loads_wide)
  have nr: "json_loads wide_builtins (roles_json_str null_roles_payload)
       = Inr (JDict [(u ''roles'', JNull)])"
    by (simp add: extract_null_roles loads_wide)
  have np: "json_loads wide_builtins (roles_json_str null_permissions_payload)
       = Inr (JDict [(u ''permissions'', JNull)])"
    by (simp add: extract_null_permissions loads_wide)
  have wrong: "structurally_wrong k (JDict [])" "structurally_wrong k (JInt 5)" for k
    by (simp_all add: structurally_wrong_def)
  have shape: "is_scalar (JInt 5)" "is_scalar JNull" "\<not> is_scalar (JDict [])"
    "\<not> key_occurs k (JDict [])" for k
    by (simp_all add: is_scalar_def key_occurs_def)
  have look: "map_of [(u ''roles'', JNull)] (u ''roles'') = Some JNull"
    "map_of [(u ''permissions'', JNull)] (u ''permissions'') = Some JNull"
    by simp_all
  note inst = malformed_payload_fails[where b = example_builtins and sent = "[]"
      and ?sent2.0 = "[]" and t = example_task and count_range = "(3, 4)"
      and roles = "[planner]"]
  note wide = malformed_payload_fails[where b = wide_builtins and sent = "[]"
      and ?sent2.0 = "[]" and t = example_task and count_range = "(3, 4)"
      and roles = "[planner]"]
  show ?thesis
    using inst[where self = "answering (u ''oops'')" and service = "\<lambda>sent p. Inr (u ''oops'')"
        and response = "u ''oops''" and ?response2.0 = "u ''oops''" and e = JSONDecodeError
        and ?e2.0 = JSONDecodeError]
      inst[where self = "answering (u ''{}'')" and service = "\<lambda>sent p. Inr (u ''{}'')"
        and response = "u ''{}''" and ?response2.0 = "u ''{}''" and data = "JDict []"
        and ?data2.0 = "JDict []"]
      wide[where self = "answering scalar_payload" and service = "\<lambda>sent p. Inr scalar_payload"
        and response = scalar_payload and ?response2.0 = scalar_payload and data = "JInt 5"
        and ?data2.0 = "JInt 5"]
      wide[where self = "answering null_roles_payload"
        and service = "\<lambda>sent p. Inr null_roles_payload" and response = null_roles_payload
        and kvs = "[(u ''roles'', JNull)]" and v = JNull]
      wide[where self = "answering null_permissions_payload"
        and service = "\<lambda>sent p. Inr null_permissions_payload"
        and ?response2.0 = null_permissions_payload and ?kvs2.0 = "[(u ''permissions'', JNull)]"
        and ?v2.0 = JNull]
      bare bad five nr np wrong shape look
    by (simp add: answering_def json_str_same)
qed

text \<open>
  C5 as stated fails on a payload that decodes to a number: the value is not a mapping,
  and both operations raise a bare \<open>TypeError\<close>, not the error of the operation.  It
  fails as well on an object whose \<open>permissions\<close> entry is \<open>null\<close>: the entry is no
  mapping, and the operation returns it.
\<close>

theorem scalar_payload_counterexample:
  "json_loads wide_builtins (roles_json_str scalar_payload) = Inr (JInt 5)
   \<and> structurally_wrong (u ''roles'') (JInt 5)
   \<and> fst (generate_roles wide_builtins (answering scalar_payload) [] example_task (3, 4))
       = Inl TypeError
   \<and> json_loads wide_builtins (permissions_json_str scalar_payload) = Inr (JInt 5)
   \<and> structurally_wrong (u ''permissions'') (JInt 5)
   \<and> fst (assign_collaboration_permissions wide_builtins (answering scalar_payload) [] [planner])
       = Inl TypeError
   \<and> json_loads wide_builtins (permissions_json_str null_permissions_payload)
       = Inr (JDict [(u ''permissions'', JNull)])
   \<and> fst (assign_collaboration_permissions wide_builtins (answering null_permissions_payload) []
        [planner]) = Inr JNull"
  by (simp add: json_str_same extract_scalar extract_null_permissions loads_wide
        structurally_wrong_def generate_scalar assign_scalar assign_null_permissions)

section \<open>The lower bound of the count range\<close>

lemma validate_min_irrelevant:
  "validate_generated_roles b raw (role_request t (lo', hi))
     = validate_generated_roles b raw (role_request t (lo, hi))"
  by (simp add: validate_generated_roles_def role_request_def)

text \<open>
  C10: the lower bound of the count range is not enforced.  Whenever validation leaves at
  least one role, \<open>generate_roles\<close> returns the roles that validation left, however many
  the lower bound asks for; validation does not depend on the lower bound, and two runs
  that differ in the lower bound only and get the same answer from the service have the
  same outcome.
\<close>

theorem min_count_not_enforced:
  "(naga_conversation self = Some service
      \<and> service sent (build_role_generation_prompt (role_request t (lo, hi))) = Inr response
      \<and> parse_roles_from_response b response = Inr raw
      \<and> validate_generated_roles b raw (role_request t (lo, hi)) = Inr survivors
      \<and> survivors \<noteq> [] \<longrightarrow>
        generate_roles b self sent t (lo, hi)
          = (Inr survivors, sent @ [build_role_generation_prompt (role_request t (lo, hi))]))
   \<and> validate_generated_roles b raw (role_request t (lo', hi))
       = validate_generated_roles b raw (role_request t (lo, hi))
   \<and> (fst (call_llm_api self sent (build_role_generation_prompt (role_request t (lo', hi))))
         = fst (call_llm_api self sent (build_role_generation_prompt (role_request t (lo, hi))))
       \<longrightarrow> fst (generate_roles b self sent t (lo', hi)) = fst (generate_roles b self sent t (lo, hi)))"
proof (intro conjI impI)
  assume a: "naga_conversation self = Some service
      \<and> service sent (build_role_generation_prompt (role_request t (lo, hi))) = Inr response
      \<and> parse_roles_from_response b response = Inr raw
      \<and> validate_generated_roles b raw (role_request t (lo, hi)) = Inr survivors
      \<and> survivors \<noteq> []"
  then show "generate_roles b self sent t (lo, hi)
          = (Inr survivors, sent @ [build_role_generation_prompt (role_request t (lo, hi))])"
    by (simp add: generate_roles_after_call[of self service])
next
  show "validate_generated_roles b raw (role_request t (lo', hi))
       = validate_generated_roles b raw (role_request t (lo, hi))"
    by (rule validate_min_irrelevant)
next
  assume "fst (call_llm_api self sent (build_role_generation_prompt (role_request t (lo', hi))))
         = fst (call_llm_api self sent (build_role_generation_prompt (role_request t (lo, hi))))"
  then show "fst (generate_roles b self sent t (lo', hi)) = fst (generate_roles b self sent t (lo, hi))"
    by (auto simp: generate_roles_unfold validate_min_irrelevant[of b _ t lo' hi lo]
          split: prod.splits sum.splits)
qed

theorem min_count_not_enforced_witness:
  "naga_conversation example_distributor
      = Some (\<lambda>sent p. case p of RoleGenerationPrompt d dm lo hi cs \<Rightarrow> Inr roles_response
                        | PermissionAssignmentPrompt roster \<Rightarrow> Inr permissions_payload)
   \<and> parse_roles_from_response example_builtins roles_response = Inr (JList [planner_json, coder_json])
   \<and> validate_generated_roles example_builtins (JList [planner_json, coder_json])
        (role_request example_task (3, 4)) = Inr [planner, coder]
   \<and> int (length [planner, coder]) < 3
   \<and> generate_roles example_builtins example_distributor [] example_task (3, 4)
       = (Inr [planner, coder], [build_role_generation_prompt (role_request example_task (3, 4))])
   \<and> fst (generate_roles example_builtins example_distributor [] example_task (1, 4))
       = fst (generate_roles example_builtins example_distributor [] example_task (3, 4))"
proof -
  have v: "validate_generated_roles example_builtins (JList [planner_json, coder_json])
        (role_request example_task (3, 4)) = Inr [planner, coder]"
    by (simp add: validate_example_roles)
  have c: "fst (call_llm_api example_distributor [] (build_role_generation_prompt (role_request example_task (1, 4))))
         = fst (call_llm_api example_distributor [] (build_role_generation_prompt (role_request example_task (3, 4))))"
    by (simp add: call_example_roles)
  show ?thesis
    using min_count_not_enforced[of example_distributor _ "[]" example_task 3 4 roles_response
        example_builtins "JList [planner_json, coder_json]" "[planner, coder]" 1]
      v c parse_example_roles
    by (simp add: example_distributor_def build_role_generation_prompt_def role_request_def)
qed

section \<open>Priorities and the upper bound of the count range\<close>

lemma all_fields_in_dict:
  "all_fields_in (JDict kvs) fs = Inr (\<forall>f\<in>set fs. map_of kvs f \<noteq> None)"
  by (induction fs) (auto simp: py_in_dict)

lemma validate_role_missing:
  assumes "f \<in> set required_fields" and "map_of kvs f = None"
  shows "validate_role b (JDict kvs) = None"
proof -
  from assms have "\<not> (\<forall>f\<in>set required_fields. map_of kvs f \<noteq> None)" by blast
  then show ?thesis by (simp add: validate_role_def all_fields_in_dict)
qed

lemma validate_role_Some:
  assumes "validate_role b c = Some r"
  shows "name r \<noteq> [] \<and> role_type r \<noteq> [] \<and> responsibilities r \<noteq> [] \<and> skills r \<noteq> []"
  using assms by (auto simp: validate_role_def split: sum.splits if_splits)

lemma make_role_dict:
  assumes "make_role b (JDict kvs) = Inr r"
  shows "\<exists>rv sv. map_of kvs (u ''responsibilities'') = Some rv \<and> map_of kvs (u ''skills'') = Some sv
           \<and> responsibilities r = ensure_list b rv \<and> skills r = ensure_list b sv
           \<and> (map_of kvs (u ''priority_level'') = None \<longrightarrow> priority_level r = 5)"
  using assms
  by (auto simp: make_role_def py_getitem_def py_get_def py_int_def
        split: option.splits sum.splits)

lemma validate_role_dict:
  assumes "validate_role b (JDict kvs) = Some r"
  shows "\<exists>rv sv. map_of kvs (u ''responsibilities'') = Some rv \<and> map_of kvs (u ''skills'') = Some sv
           \<and> responsibilities r = ensure_list b rv \<and> skills r = ensure_list b sv
           \<and> (map_of kvs (u ''priority_level'') = None \<longrightarrow> priority_level r = 5)"
proof -
  from assms have "make_role b (JDict kvs) = Inr r"
    by (auto simp: validate_role_def split: sum.splits if_splits)
  then show ?thesis by (rule make_role_dict)
qed

lemma set_map_filter: "set (List.map_filter f xs) = {y. \<exists>x\<in>set xs. f x = Some y}"
  by (induction xs) (auto split: option.splits)

lemma map_filter_skip:
  "f c = None \<Longrightarrow> List.map_filter f (xs @ c # ys) = List.map_filter f (xs @ ys)"
  by (simp add: List.map_filter_def)

lemma set_py_slice: "set (py_slice xs a c) \<subseteq> set xs"
  unfolding py_slice_def Let_def
  by (meson set_take_subset set_drop_subset subset_trans)

lemma py_slice_0: "0 \<le> n \<Longrightarrow> py_slice xs 0 n = take (nat n) xs"
  by (cases "nat n \<le> length xs") (simp_all add: py_slice_def norm_index_def min_def)

lemma validate_list:
  "validate_generated_roles b raw request =
     (case py_iter raw of
        Inl e \<Rightarrow> Inl e
      | Inr items \<Rightarrow>
          Inr (if snd (expected_count_range request) < int (length (List.map_filter (validate_role b) items))
               then py_slice (sorted_by_priority (List.map_filter (validate_role b) items)) 0
                      (snd (expected_count_range request))
               else List.map_filter (validate_role b) items))"
  by (simp add: validate_generated_roles_def Let_def split: prod.splits sum.splits)

lemma validate_subset:
  assumes "validate_generated_roles b raw request = Inr rs" and "r \<in> set rs"
  shows "\<exists>c. validate_role b c = Some r"
proof -
  from assms(1) obtain items where items: "py_iter raw = Inr items"
    by (auto simp: validate_list split: sum.splits)
  with assms(1) have "set rs \<subseteq> set (List.map_filter (validate_role b) items)"
    using set_py_slice[of "sorted_by_priority (List.map_filter (validate_role b) items)"]
    by (auto simp: validate_list sorted_by_priority_def split: if_splits)
  with assms(2) show ?thesis by (auto simp: set_map_filter)
qed

lemma sorted_by_priority_desc:
  "sorted_wrt (\<lambda>x y. priority_level y \<le> priority_level x) (sorted_by_priority xs)"
proof -
  have "sorted (map (\<lambda>x. - priority_level x) (sorted_by_priority xs))"
    by (simp add: sorted_by_priority_def)
  then show ?thesis by (simp add: sorted_map)
qed

lemma sorted_by_priority_stable:
  "filter (\<lambda>x. priority_level x = p) (sorted_by_priority xs) = filter (\<lambda>x. priority_level x = p) xs"
proof -
  have "filter (\<lambda>x. - priority_level x = - p) (sort_key (\<lambda>x. - priority_level x) xs)
      = filter (\<lambda>x. - priority_level x = - p) xs"
    by (rule sort_key_stable)
  then show ?thesis by (simp add: sorted_by_priority_def)
qed

lemma top_of_sorted:
  fixes xs :: "generated_role list"
  defines "ys \<equiv> sorted_by_priority xs"
  assumes "n \<le> length xs"
  shows "length (take n ys) = n"
    and "sorted_wrt (\<lambda>x y. priority_level y \<le> priority_level x) (take n ys)"
    and "mset (take n ys) \<subseteq># mset xs"
    and "\<forall>k\<in>set (take n ys). \<forall>d\<in>#(mset xs - mset (take n ys)). priority_level d \<le> priority_level k"
    and "prefix (filter (\<lambda>x. priority_level x = p) (take n ys)) (filter (\<lambda>x. priority_level x = p) xs)"
proof -
  have len: "length ys = length xs" by (simp add: ys_def sorted_by_priority_def)
  have ms: "mset ys = mset xs" by (simp add: ys_def sorted_by_priority_def)
  have desc: "sorted_wrt (\<lambda>x y. priority_level y \<le> priority_level x) ys"
    unfolding ys_def by (rule sorted_by_priority_desc)
  have split: "ys = take n ys @ drop n ys" by simp
  show "length (take n ys) = n" using assms(2) len by simp
  show "sorted_wrt (\<lambda>x y. priority_level y \<le> priority_level x) (take n ys)"
    using desc by (rule sorted_wrt_take)
  have parts: "mset xs = mset (take n ys) + mset (drop n ys)"
    by (metis ms split mset_append)
  then show "mset (take n ys) \<subseteq># mset xs" by simp
  from parts have rest: "mset xs - mset (take n ys) = mset (drop n ys)" by simp
  from desc have "sorted_wrt (\<lambda>x y. priority_level y \<le> priority_level x) (take n ys @ drop n ys)"
    by simp
  then have "\<forall>k\<in>set (take n ys). \<forall>d\<in>set (drop n ys). priority_level d \<le> priority_level k"
    by (simp only: sorted_wrt_append) blast
  then show "\<forall>k\<in>set (take n ys). \<forall>d\<in>#(mset xs - mset (take n ys)). priority_level d \<le> priority_level k"
    by (simp add: rest)
  have "prefix (filter (\<lambda>x. priority_level x = p) (take n ys)) (filter (\<lambda>x. priority_level x = p) ys)"
    by (rule filter_mono_prefix) (rule take_is_prefix)
  then show "prefix (filter (\<lambda>x. priority_level x = p) (take n ys)) (filter (\<lambda>x. priority_level x = p) xs)"
    by (simp add: ys_def sorted_by_priority_stable)
qed

text \<open>
  C4: a candidate without a \<open>priority_level\<close> field gets priority 5.  When more roles
  pass validation than the upper bound \<open>hi\<close> of the count range (a count, so not
  negative), exactly \<open>hi\<close> of them are kept, in descending order of priority; no role
  left out has a higher priority than a role kept; and among the roles of one priority
  the kept ones are the first in the original order, in that order.
\<close>

theorem crop_to_max_by_priority:
  "(validate_role b (JDict kvs) = Some r \<and> map_of kvs (u ''priority_level'') = None
      \<longrightarrow> priority_level r = 5)
   \<and> (py_iter raw = Inr items \<and> expected_count_range request = (lo, hi) \<and> 0 \<le> hi
       \<and> hi < int (length (List.map_filter (validate_role b) items)) \<longrightarrow>
        (\<exists>kept. validate_generated_roles b raw request = Inr kept
           \<and> length kept = nat hi
           \<and> sorted_wrt (\<lambda>x y. priority_level y \<le> priority_level x) kept
           \<and> mset kept \<subseteq># mset (List.map_filter (validate_role b) items)
           \<and> (\<forall>k\<in>set kept. \<forall>d\<in>#(mset (List.map_filter (validate_role b) items) - mset kept).
                 priority_level d \<le> priority_level k)
           \<and> (\<forall>p. prefix (filter (\<lambda>x. priority_level x = p) kept)
                  (filter (\<lambda>x. priority_level x = p) (List.map_filter (validate_role b) items)))))"
proof (intro conjI impI)
  assume "validate_role b (JDict kvs) = Some r \<and> map_of kvs (u ''priority_level'') = None"
  then show "priority_level r = 5" using validate_role_dict[of b kvs r] by auto
next
  let ?vs = "List.map_filter (validate_role b) items"
  let ?kept = "take (nat hi) (sorted_by_priority ?vs)"
  assume a: "py_iter raw = Inr items \<and> expected_count_range request = (lo, hi) \<and> 0 \<le> hi
       \<and> hi < int (length ?vs)"
  then have n: "nat hi \<le> length ?vs" by linarith
  from a have "validate_generated_roles b raw request = Inr ?kept"
    by (simp add: validate_list py_slice_0)
  moreover note top_of_sorted[OF n]
  ultimately show "\<exists>kept. validate_generated_roles b raw request = Inr kept
           \<and> length kept = nat hi
           \<and> sorted_wrt (\<lambda>x y. priority_level y \<le> priority_level x) kept
           \<and> mset kept \<subseteq># mset ?vs
           \<and> (\<forall>k\<in>set kept. \<forall>d\<in>#(mset ?vs - mset kept). priority_level d \<le> priority_level k)
           \<and> (\<forall>p. prefix (filter (\<lambda>x. priority_level x = p) kept)
                  (filter (\<lambda>x. priority_level x = p) ?vs))"
    by blast
qed

theorem crop_to_max_by_priority_witness:
  "validate_role example_builtins (JDict coder_fields) = Some coder
   \<and> map_of coder_fields (u ''priority_level'') = None
   \<and> priority_level coder = 5
   \<and> py_iter (JList [coder_json, planner_json, tester_json])
       = Inr [coder_json, planner_json, tester_json]
   \<and> expected_count_range (role_request example_task (1, 2)) = (1, 2)
   \<and> (2::int) < int (length (List.map_filter (validate_role example_builtins)
                      [coder_json, planner_json, tester_json]))
   \<and> validate_generated_roles example_builtins (JList [coder_json, planner_json, tester_json])
        (role_request example_task (1, 2)) = Inr [planner, tester]"
proof -
  have c: "validate_role example_builtins (JDict coder_fields) = Some coder"
    using validate_coder by (simp add: coder_json_def)
  have m: "map_of coder_fields (u ''priority_level'') = None"
    by (simp add: coder_fields_def u_def)
  have i: "py_iter (JList [coder_json, planner_json, tester_json])
       = Inr [coder_json, planner_json, tester_json]"
    by (simp add: py_iter_def)
  have vs: "List.map_filter (validate_role example_builtins) [coder_json, planner_json, tester_json]
       = [coder, planner, tester]"
    by (simp add: validate_coder validate_planner validate_tester)
  have e: "expected_count_range (role_request example_task (1, 2)) = (1, 2)"
    by (simp add: role_request_def)
  have k: "validate_generated_roles example_builtins (JList [coder_json, planner_json, tester_json])
        (role_request example_task (1, 2)) = Inr [planner, tester]"
    by (simp add: validate_list i e sorted_by_priority_def py_slice_0 validate_coder
          validate_planner validate_tester coder_def planner_def tester_def)
  show ?thesis
    using crop_to_max_by_priority[of example_builtins coder_fields coder
        "JList [coder_json, planner_json, tester_json]" "[coder_json, planner_json, tester_json]"
        "role_request example_task (1, 2)" 1 2] c m i vs e k
    by simp
qed

section \<open>Validation of a candidate role\<close>

lemma ensure_list_str: "ensure_list b (JStr s) = (if strip s = [] then [] else [strip s])"
  by (simp add: ensure_list_def)

lemma ensure_list_other:
  "(\<forall>xs. v \<noteq> JList xs) \<and> (\<forall>s. v \<noteq> JStr s) \<Longrightarrow> ensure_list b v = []"
  by (cases v) (simp_all add: ensure_list_def)

lemma validate_role_empty_lists:
  assumes "map_of kvs (u ''responsibilities'') = Some rv" and "map_of kvs (u ''skills'') = Some sv"
      and "ensure_list b rv = [] \<or> ensure_list b sv = []"
  shows "validate_role b (JDict kvs) = None"
proof (rule ccontr)
  assume "validate_role b (JDict kvs) \<noteq> None"
  then obtain r where r: "validate_role b (JDict kvs) = Some r" by blast
  from validate_role_dict[OF r] assms(1,2)
  have "responsibilities r = ensure_list b rv" "skills r = ensure_list b sv" by auto
  with validate_role_Some[OF r] assms(3) show False by auto
qed

text \<open>
  C3, as the code has it: a candidate mapping that lacks one of the five required fields
  is skipped, the result being what it is without that candidate, and validation of a
  list of candidates never raises; a \<open>responsibilities\<close> or \<open>skills\<close> value that is text
  becomes the singleton list of the stripped text when that is not empty and the empty
  list when it is, and a value that is neither a list nor text becomes the empty list; a
  candidate whose responsibilities or skills are empty after this is rejected, so every
  role returned has responsibilities and skills.
\<close>

theorem candidate_validation:
  "(f \<in> set required_fields \<and> map_of kvs f = None \<longrightarrow>
       validate_role b (JDict kvs) = None
       \<and> validate_generated_roles b (JList (xs @ JDict kvs # ys)) request
           = validate_generated_roles b (JList (xs @ ys)) request)
   \<and> (\<exists>rs. validate_generated_roles b (JList cands) request = Inr rs)
   \<and> ensure_list b (JStr s) = (if strip s = [] then [] else [strip s])
   \<and> ((\<forall>xs. v \<noteq> JList xs) \<and> (\<forall>s. v \<noteq> JStr s) \<longrightarrow> ensure_list b v = [])
   \<and> (map_of kvs' (u ''responsibilities'') = Some rv \<and> map_of kvs' (u ''skills'') = Some sv
        \<and> (ensure_list b rv = [] \<or> ensure_list b sv = []) \<longrightarrow>
       validate_role b (JDict kvs') = None)
   \<and> (validate_generated_roles b raw request = Inr rs \<and> r \<in> set rs \<longrightarrow>
       responsibilities r \<noteq> [] \<and> skills r \<noteq> [])"
proof (intro conjI impI)
  assume a: "f \<in> set required_fields \<and> map_of kvs f = None"
  then show none: "validate_role b (JDict kvs) = None"
    by (blast intro: validate_role_missing)
  then show "validate_generated_roles b (JList (xs @ JDict kvs # ys)) request
           = validate_generated_roles b (JList (xs @ ys)) request"
    by (simp add: validate_list py_iter_def map_filter_skip)
next
  show "\<exists>rs. validate_generated_roles b (JList cands) request = Inr rs"
    by (simp add: validate_list py_iter_def)
next
  show "ensure_list b (JStr s) = (if strip s = [] then [] else [strip s])"
    by (rule ensure_list_str)
next
  assume "(\<forall>xs. v \<noteq> JList xs) \<and> (\<forall>s. v \<noteq> JStr s)"
  then show "ensure_list b v = []" by (rule ensure_list_other)
next
  assume "map_of kvs' (u ''responsibilities'') = Some rv \<and> map_of kvs' (u ''skills'') = Some sv
        \<and> (ensure_list b rv = [] \<or> ensure_list b sv = [])"
  then show "validate_role b (JDict kvs') = None"
    by (blast intro: validate_role_empty_lists)
next
  assume a: "validate_generated_roles b raw request = Inr rs \<and> r \<in> set rs"
  then obtain c where "validate_role b c = Some r" using validate_subset by blast
  then have ok: "responsibilities r \<noteq> [] \<and> skills r \<noteq> []" using validate_role_Some by blast
  from ok show "responsibilities r \<noteq> []" ..
  from ok show "skills r \<noteq> []" ..
qed

theorem candidate_validation_witness:
  "u ''skills'' \<in> set required_fields
   \<and> map_of nameless_fields (u ''skills'') = None
   \<and> validate_role example_builtins (JDict nameless_fields) = None
   \<and> validate_generated_roles example_builtins
        (JList ([planner_json] @ JDict nameless_fields # [coder_json, JDict unskilled_fields]))
        (role_request example_task (3, 4)) = Inr [planner, coder]
   \<and> ensure_list example_builtins (JStr (u '' test '')) = [u ''test'']
   \<and> ensure_list example_builtins (JInt 3) = []
   \<and> map_of unskilled_fields (u ''responsibilities'') = Some (JList [JStr (u ''code'')])
   \<and> map_of unskilled_fields (u ''skills'') = Some (JInt 3)
   \<and> validate_role example_builtins (JDict unskilled_fields) = None
   \<and> planner \<in> set [planner, coder]
   \<and> responsibilities planner \<noteq> [] \<and> skills planner \<noteq> []"
proof -
  have req: "u ''skills'' \<in> set required_fields" by (simp add: required_fields_def)
  have miss: "map_of nameless_fields (u ''skills'') = None"
    by (simp add: nameless_fields_def u_def)
  have r1: "map_of unskilled_fields (u ''responsibilities'') = Some (JList [JStr (u ''code'')])"
    by (simp add: unskilled_fields_def u_def)
  have r2: "map_of unskilled_fields (u ''skills'') = Some (JInt 3)"
    by (simp add: unskilled_fields_def u_def)
  have e1: "ensure_list example_builtins (JStr (u '' test '')) = [u ''test'']"
    by (simp add: ensure_list_def strip_def isspace_def u_def)
  have e2: "ensure_list example_builtins (JInt 3) = []"
    by (simp add: ensure_list_def)
  have un: "validate_role example_builtins (JDict unskilled_fields) = None"
    by (rule validate_role_empty_lists[OF r1 r2]) (simp add: e2)
  have rest: "validate_generated_roles example_builtins
        (JList ([planner_json] @ [coder_json, JDict unskilled_fields]))
        (role_request example_task (3, 4)) = Inr [planner, coder]"
    by (simp add: validate_list py_iter_def validate_planner validate_coder un role_request_def)
  show ?thesis
    using candidate_validation[of "u ''skills''" nameless_fields example_builtins "[planner_json]"
        "[coder_json, JDict unskilled_fields]" "role_request example_task (3, 4)"
        "[]" "u '' test ''" "JInt 3" unskilled_fields "JList [JStr (u ''code'')]" "JInt 3"
        "JList [planner_json, coder_json]" "[planner, coder]" planner]
      req miss r1 r2 e1 e2 un rest
    by (simp add: planner_def)
qed

text \<open>
  C3 as stated fails on text that holds white space only: it is not empty, and it is
  coerced to the empty list, not to a singleton.
\<close>

theorem blank_text_counterexample:
  "u '' '' \<noteq> [] \<and> ensure_list example_builtins (JStr (u '' '')) = []"
  by (simp add: ensure_list_def strip_def isspace_def u_def)

section \<open>The text handed to the decoder\<close>

lemma length_fence: "length fence = 3"
  by (simp add: fence_def u_def)

lemma first_opener:
  assumes "py_find r fence_json 0 \<noteq> - 1"
  obtains k rest where "py_find r fence_json 0 = int k" "r = take k r @ fence_json @ rest"
    "k + 7 \<le> length r" "\<forall>j<k. \<not> prefix fence_json (drop j r)"
proof -
  from assms find_at_result[of fence_json r 0]
  obtain k where k: "k \<le> length r" "find_at fence_json r 0 = int k" "prefix fence_json (drop k r)"
    "\<forall>j<k. \<not> prefix fence_json (drop j r)"
    by (auto simp: py_find_0)
  from k(3) obtain rest where rest: "drop k r = fence_json @ rest" by (auto simp: prefix_def)
  then have dec: "r = take k r @ fence_json @ rest" by (metis append_take_drop_id)
  have "length (drop k r) = 7 + length rest" using rest by (simp add: length_fence_json)
  then have "k + 7 \<le> length r" by simp
  with k dec that show thesis by (simp add: py_find_0)
qed

lemma fenced_branch:
  assumes "py_find r fence_json 0 \<noteq> - 1"
      and "py_find r fence (py_find r fence_json 0 + 7) \<noteq> - 1"
  shows "\<exists>pre body post. r = pre @ fence_json @ body @ fence @ post
           \<and> (\<forall>k<length pre. \<not> prefix fence_json (drop k r))
           \<and> (\<forall>k<length body. \<not> prefix fence (drop k (body @ fence @ post)))
           \<and> roles_json_str r = strip body"
proof -
  from assms(1) obtain k rest where k: "py_find r fence_json 0 = int k"
    "r = take k r @ fence_json @ rest" "k + 7 \<le> length r" "\<forall>j<k. \<not> prefix fence_json (drop j r)"
    by (rule first_opener)
  have lk: "length (take k r) = k" using k(3) by simp
  have "drop (k + 7) r = drop (k + 7) (take k r @ fence_json @ rest)" using k(2) by simp
  also have "\<dots> = rest" using k(3) by (simp add: length_fence_json)
  finally have dr: "drop (k + 7) r = rest" .
  have "py_find r fence (int (k + 7)) = find_at fence (drop (k + 7) r) (k + 7)"
    using k(3) by (rule py_find_nat)
  with assms(2) k(1) dr have "find_at fence rest (k + 7) \<noteq> - 1" by (simp add: add.commute)
  with find_at_result[of fence rest "k + 7"]
  obtain j where j: "j \<le> length rest" "prefix fence (drop j rest)"
    "\<forall>i<j. \<not> prefix fence (drop i rest)" by auto
  from j(2) obtain post where "drop j rest = fence @ post" by (auto simp: prefix_def)
  then have rest: "rest = take j rest @ fence @ post" by (metis append_take_drop_id)
  let ?pre = "take k r" and ?body = "take j rest"
  have r: "r = ?pre @ fence_json @ ?body @ fence @ post" using k(2) rest by simp
  have lj: "length ?body = j" using j(1) by simp
  have a: "\<forall>i<length ?pre. \<not> prefix fence_json (drop i r)" using k(4) lk by simp
  have b: "\<forall>i<length ?body. \<not> prefix fence (drop i (?body @ fence @ post))"
    using j(3) lj rest by simp
  have "roles_json_str (?pre @ fence_json @ ?body @ fence @ post) = strip ?body"
    by (rule json_str_fenced) (use a b r in simp_all)
  with r have "roles_json_str r = strip ?body" by simp
  with r a b show ?thesis by blast
qed

lemma fenced_block_found:
  assumes "has_fenced_block r"
  shows "py_find r fence_json 0 \<noteq> - 1 \<and> py_find r fence (py_find r fence_json 0 + 7) \<noteq> - 1"
proof -
  from assms obtain pre body post where r: "r = pre @ fence_json @ body @ fence @ post"
    by (auto simp: has_fenced_block_def)
  have occ: "length pre \<le> length r \<and> prefix fence_json (drop (length pre) r)"
    by (simp add: r)
  have found: "py_find r fence_json 0 \<noteq> - 1"
    using find_at_result[of fence_json r 0] occ by (auto simp: py_find_0)
  then obtain k rest where k: "py_find r fence_json 0 = int k"
    "r = take k r @ fence_json @ rest" "k + 7 \<le> length r" "\<forall>j<k. \<not> prefix fence_json (drop j r)"
    by (rule first_opener)
  from k(4) occ have kle: "k \<le> length pre" by (meson not_le_imp_less)
  let ?m = "length pre + 7 + length body"
  have tail: "drop ?m r = fence @ post" by (simp add: r length_fence_json)
  have "?m - (k + 7) + (k + 7) = ?m" using kle by simp
  then have "drop (?m - (k + 7)) (drop (k + 7) r) = drop ?m r" by (simp only: drop_drop)
  with tail have hit: "prefix fence (drop (?m - (k + 7)) (drop (k + 7) r))" by simp
  have "length r = ?m + length fence + length post"
    unfolding r by (simp add: length_fence_json)
  then have bound: "?m - (k + 7) \<le> length (drop (k + 7) r)"
    by simp
  have "py_find r fence (int (k + 7)) = find_at fence (drop (k + 7) r) (k + 7)"
    using k(3) by (rule py_find_nat)
  moreover have "find_at fence (drop (k + 7) r) (k + 7) \<noteq> - 1"
    using find_at_result[of fence "drop (k + 7) r" "k + 7"] hit bound by auto
  ultimately have "py_find r fence (int k + 7) \<noteq> - 1" by (simp add: add.commute)
  with found k(1) show ?thesis by simp
qed

lemma fenced_branch_iff:
  "has_fenced_block r \<longleftrightarrow>
     py_find r fence_json 0 \<noteq> - 1 \<and> py_find r fence (py_find r fence_json 0 + 7) \<noteq> - 1"
proof
  assume "has_fenced_block r"
  then show "py_find r fence_json 0 \<noteq> - 1 \<and> py_find r fence (py_find r fence_json 0 + 7) \<noteq> - 1"
    by (rule fenced_block_found)
next
  assume "py_find r fence_json 0 \<noteq> - 1 \<and> py_find r fence (py_find r fence_json 0 + 7) \<noteq> - 1"
  then have "\<exists>pre body post. r = pre @ fence_json @ body @ fence @ post
           \<and> (\<forall>k<length pre. \<not> prefix fence_json (drop k r))
           \<and> (\<forall>k<length body. \<not> prefix fence (drop k (body @ fence @ post)))
           \<and> roles_json_str r = strip body"
    using fenced_branch by blast
  then show "has_fenced_block r" unfolding has_fenced_block_def by blast
qed

lemma rfind_at_char:
  "rfind_at [c] s i = - 1 \<and> c \<notin> set s
   \<or> (\<exists>k<length s. rfind_at [c] s i = int (i + k) \<and> s ! k = c \<and> c \<notin> set (drop (Suc k) s))"
proof (induction s arbitrary: i)
  case Nil
  then show ?case by simp
next
  case (Cons x xs)
  from Cons.IH[of "Suc i"] show ?case
  proof
    assume a: "rfind_at [c] xs (Suc i) = - 1 \<and> c \<notin> set xs"
    show ?thesis
    proof (cases "c = x")
      case True
      with a have "0 < length (x # xs) \<and> rfind_at [c] (x # xs) i = int (i + 0) \<and> (x # xs) ! 0 = c
          \<and> c \<notin> set (drop (Suc 0) (x # xs))" by simp
      then show ?thesis by blast
    next
      case False
      with a show ?thesis by simp
    qed
  next
    assume "\<exists>k<length xs. rfind_at [c] xs (Suc i) = int (Suc i + k) \<and> xs ! k = c
        \<and> c \<notin> set (drop (Suc k) xs)"
    then obtain k where k: "k < length xs" "rfind_at [c] xs (Suc i) = int (Suc i + k)" "xs ! k = c"
      "c \<notin> set (drop (Suc k) xs)" by blast
    then have "Suc k < length (x # xs) \<and> rfind_at [c] (x # xs) i = int (i + Suc k)
        \<and> (x # xs) ! Suc k = c \<and> c \<notin> set (drop (Suc (Suc k)) (x # xs))" by simp
    then show ?thesis by blast
  qed
qed

lemma cut_after_last:
  "\<exists>rest. s = py_slice s 0 (py_rfind s [c] + 1) @ rest \<and> c \<notin> set rest
     \<and> (py_slice s 0 (py_rfind s [c] + 1) = [] \<or> last (py_slice s 0 (py_rfind s [c] + 1)) = c)"
  using rfind_at_char[of c s 0]
proof
  assume "rfind_at [c] s 0 = - 1 \<and> c \<notin> set s"
  then show ?thesis by (simp add: py_rfind_def py_slice_def norm_index_def)
next
  assume "\<exists>k<length s. rfind_at [c] s 0 = int (0 + k) \<and> s ! k = c \<and> c \<notin> set (drop (Suc k) s)"
  then obtain k where k: "k < length s" "rfind_at [c] s 0 = int k" "s ! k = c"
    "c \<notin> set (drop (Suc k) s)" by auto
  have "py_slice s 0 (int k + 1) = take (nat (int k + 1)) s" by (rule py_slice_0) simp
  then have sl: "py_slice s 0 (py_rfind s [c] + 1) = take (Suc k) s"
    using k(2) by (simp add: py_rfind_def nat_add_distrib)
  have "take (Suc k) s = take k s @ [s ! k]" using k(1) by (rule take_Suc_conv_app_nth)
  then have "last (take (Suc k) s) = c" using k(3) by simp
  moreover have "s = take (Suc k) s @ drop (Suc k) s" by simp
  ultimately show ?thesis using sl k(4) by metis
qed

lemma rbrace_char: "rbrace = [125]"
  by (simp add: rbrace_def u_def)

lemma json_str_unfenced:
  assumes "\<not> has_fenced_block r"
  shows "roles_json_str r =
     (if startswith (strip r) lbrace then py_slice (strip r) 0 (py_rfind (strip r) rbrace + 1)
      else strip r)"
  using assms by (auto simp: fenced_branch_iff roles_json_str_def Let_def)

lemma first_decomposition:
  assumes "\<forall>k<length pre. \<not> prefix sub (drop k r)" and "r = pre' @ sub @ rest'"
  shows "length pre \<le> length pre'"
proof (rule ccontr)
  assume "\<not> length pre \<le> length pre'"
  then have "length pre' < length pre" by simp
  with assms(1) have "\<not> prefix sub (drop (length pre') r)" by blast
  with assms(2) show False by simp
qed

text \<open>
  C2, as the code has it: when the response holds a \<open>```json\<close> opener with a \<open>```\<close>
  fence after it, the text decoded is the stripped text between the first opener and the
  next fence.  Otherwise it is the stripped response, cut after its last closing brace
  when it begins with an opening brace (nothing is left when it has no closing brace), and
  the whole stripped response when it begins with anything else.  From a decoded object
  the parser returns the value under \<open>roles\<close>, and the empty list when there is none.
\<close>

theorem json_text_selection:
  "(has_fenced_block response \<longrightarrow>
      (\<exists>pre body post. response = pre @ fence_json @ body @ fence @ post
         \<and> (\<forall>pre' rest'. response = pre' @ fence_json @ rest' \<longrightarrow> length pre \<le> length pre')
         \<and> (\<forall>body' post'. body @ fence @ post = body' @ fence @ post'
               \<longrightarrow> length body \<le> length body')
         \<and> roles_json_str response = strip body))
   \<and> (\<not> has_fenced_block response \<and> \<not> startswith (strip response) lbrace \<longrightarrow>
        roles_json_str response = strip response)
   \<and> (\<not> has_fenced_block response \<and> startswith (strip response) lbrace \<longrightarrow>
        (\<exists>rest. strip response = roles_json_str response @ rest \<and> 125 \<notin> set rest
           \<and> (roles_json_str response = [] \<or> last (roles_json_str response) = 125)))
   \<and> (json_loads b (roles_json_str response) = Inr (JDict kvs) \<longrightarrow>
        parse_roles_from_response b response
          = Inr (case map_of kvs (u ''roles'') of None \<Rightarrow> JList [] | Some v \<Rightarrow> v))"
proof (intro conjI impI)
  assume "has_fenced_block response"
  then obtain pre body post where d: "response = pre @ fence_json @ body @ fence @ post"
    "\<forall>k<length pre. \<not> prefix fence_json (drop k response)"
    "\<forall>k<length body. \<not> prefix fence (drop k (body @ fence @ post))"
    "roles_json_str response = strip body"
    using fenced_branch[of response] fenced_block_found[of response] by blast
  have "\<forall>pre' rest'. response = pre' @ fence_json @ rest' \<longrightarrow> length pre \<le> length pre'"
    using first_decomposition[OF d(2)] by blast
  moreover have "\<forall>body' post'. body @ fence @ post = body' @ fence @ post'
      \<longrightarrow> length body \<le> length body'"
    using first_decomposition[OF d(3)] by blast
  ultimately show "\<exists>pre body post. response = pre @ fence_json @ body @ fence @ post
         \<and> (\<forall>pre' rest'. response = pre' @ fence_json @ rest' \<longrightarrow> length pre \<le> length pre')
         \<and> (\<forall>body' post'. body @ fence @ post = body' @ fence @ post'
               \<longrightarrow> length body \<le> length body')
         \<and> roles_json_str response = strip body"
    using d(1,4) by blast
next
  assume "\<not> has_fenced_block response \<and> \<not> startswith (strip response) lbrace"
  then show "roles_json_str response = strip response"
    by (simp add: json_str_unfenced)
next
  assume "\<not> has_fenced_block response \<and> startswith (strip response) lbrace"
  then have "roles_json_str response
      = py_slice (strip response) 0 (py_rfind (strip response) [125] + 1)"
    by (simp add: json_str_unfenced rbrace_char)
  with cut_after_last[of "strip response" 125]
  show "\<exists>rest. strip response = roles_json_str response @ rest \<and> 125 \<notin> set rest
           \<and> (roles_json_str response = [] \<or> last (roles_json_str response) = 125)"
    by simp
next
  assume "json_loads b (roles_json_str response) = Inr (JDict kvs)"
  then show "parse_roles_from_response b response
          = Inr (case map_of kvs (u ''roles'') of None \<Rightarrow> JList [] | Some v \<Rightarrow> v)"
    by (auto simp: parse_roles_from_response_def py_in_dict py_getitem_def split: option.splits)
qed

lemma no_opener_unfenced: "py_find r fence_json 0 = - 1 \<Longrightarrow> \<not> has_fenced_block r"
  by (simp add: fenced_branch_iff)

theorem json_text_selection_witness:
  "has_fenced_block roles_response
   \<and> roles_json_str roles_response = roles_payload
   \<and> \<not> has_fenced_block unfenced_response
   \<and> \<not> startswith (strip unfenced_response) lbrace
   \<and> roles_json_str unfenced_response = strip unfenced_response
   \<and> \<not> has_fenced_block (u '' {} ok'')
   \<and> startswith (strip (u '' {} ok'')) lbrace
   \<and> strip (u '' {} ok'') = roles_json_str (u '' {} ok'') @ u '' ok''
   \<and> json_loads example_builtins (roles_json_str roles_response) = Inr (JDict [(u ''roles'', JList [planner_json, coder_json])])
   \<and> parse_roles_from_response example_builtins roles_response
       = Inr (JList [planner_json, coder_json])"
proof -
  have "roles_response = u ''Here are the roles: '' @ fence_json
      @ (u '' '' @ roles_payload @ u '' '') @ fence @ u '' Done.''"
    by (simp add: roles_response_def fence_json_def fence_def u_def)
  then have f: "has_fenced_block roles_response"
    unfolding has_fenced_block_def by blast
  have n1: "\<not> has_fenced_block unfenced_response"
    by (rule no_opener_unfenced) (simp add: unfenced_response_def str_eval)
  have s1: "\<not> startswith (strip unfenced_response) lbrace"
    by (simp add: unfenced_response_def str_eval)
  have n2: "\<not> has_fenced_block (u '' {} ok'')"
    by (rule no_opener_unfenced) (simp add: str_eval)
  have s2: "startswith (strip (u '' {} ok'')) lbrace"
    by (simp add: str_eval)
  have c2: "strip (u '' {} ok'') = roles_json_str (u '' {} ok'') @ u '' ok''"
    by (simp add: roles_json_str_def str_eval)
  have l: "json_loads example_builtins (roles_json_str roles_response)
      = Inr (JDict [(u ''roles'', JList [planner_json, coder_json])])"
    by (simp add: extract_example_roles loads_examples roles_decoded_def)
  show ?thesis
    using json_text_selection[of roles_response example_builtins
        "[(u ''roles'', JList [planner_json, coder_json])]"]
      json_text_selection[of unfenced_response example_builtins "[]"]
      json_text_selection[of "u '' {} ok''" example_builtins "[]"]
      f n1 s1 n2 s2 c2 l extract_example_roles
    by simp
qed

text \<open>
  C2 as stated fails on a response without a fenced block whose JSON object follows other
  text: the first top-level \<open>{...}\<close> span is the object, but the parser hands the whole
  response to \<open>json.loads\<close>, and raises where decoding the span would have succeeded.
\<close>

theorem unfenced_counterexample:
  "\<not> str_contains unfenced_response fence_json
   \<and> spec_first_top_level_span unfenced_response = Some empty_roles_payload
   \<and> json_loads example_builtins empty_roles_payload = Inr (JDict [(u ''roles'', JList [])])
   \<and> roles_json_str unfenced_response = unfenced_response
   \<and> unfenced_response \<noteq> empty_roles_payload
   \<and> parse_roles_from_response example_builtins unfenced_response
       = Inl (RuntimeError msg_roles_undecodable)"
proof -
  have a: "\<not> str_contains unfenced_response fence_json"
    by (simp add: str_contains_def unfenced_response_def str_eval)
  have b: "spec_first_top_level_span unfenced_response = Some empty_roles_payload"
    by (simp add: spec_first_top_level_span_def unfenced_response_def empty_roles_payload_def u_def)
  have c: "roles_json_str unfenced_response = unfenced_response"
    by (simp add: roles_json_str_def unfenced_response_def str_eval)
  have d: "unfenced_response \<noteq> empty_roles_payload"
    by (simp add: unfenced_response_def empty_roles_payload_def u_def)
  have e: "json_loads example_builtins unfenced_response = Inl JSONDecodeError"
    by (simp add: example_builtins_def unfenced_response_def roles_payload_def
          permissions_payload_def empty_roles_payload_def u_def)
  from a b c d e show ?thesis
    by (simp add: parse_roles_from_response_def loads_examples)
qed

section \<open>The number of rounds of a session\<close>

lemma run_round_number: "round_number (run_round caps cfg t agents past n) = n"
  by (simp add: run_round_def Let_def)

lemma run_round_continue:
  "round_decision (run_round caps cfg t agents past n) \<noteq> Terminate \<Longrightarrow> int n < max_iterations t"
  by (auto simp: run_round_def Let_def split: if_splits)

lemma round_loop_length:
  "int n \<le> max_iterations t \<Longrightarrow>
     int (length (round_loop caps cfg t agents past n))
       \<le> int (length past) + (max_iterations t - int n) + 1"
proof (induction caps cfg t agents past n rule: round_loop.induct)
  case (1 caps cfg t agents past n)
  let ?r = "run_round caps cfg t agents past n"
  show ?case
  proof (cases "round_decision ?r = Terminate")
    case True
    then have "round_loop caps cfg t agents past n = past @ [?r]"
      by (subst round_loop.simps) (simp add: Let_def)
    with "1.prems" show ?thesis by simp
  next
    case False
    then have more: "int (Suc n) \<le> max_iterations t"
      using run_round_continue[of caps cfg t agents past n] by simp
    from False have "round_loop caps cfg t agents past n
        = round_loop caps cfg t agents (past @ [?r]) (Suc n)"
      by (subst round_loop.simps) (simp add: Let_def)
    moreover have "int (length (round_loop caps cfg t agents (past @ [?r]) (Suc n)))
        \<le> int (length (past @ [?r])) + (max_iterations t - int (Suc n)) + 1"
      using "1.IH"[OF refl False more] .
    ultimately show ?thesis by simp
  qed
qed

lemma round_loop_numbers:
  "map round_number (round_loop caps cfg t agents past n)
     = map round_number past
       @ [n..<n + (length (round_loop caps cfg t agents past n) - length past)]
   \<and> length past < length (round_loop caps cfg t agents past n)"
proof (induction caps cfg t agents past n rule: round_loop.induct)
  case (1 caps cfg t agents past n)
  let ?r = "run_round caps cfg t agents past n"
  show ?case
  proof (cases "round_decision ?r = Terminate")
    case True
    then have "round_loop caps cfg t agents past n = past @ [?r]"
      by (subst round_loop.simps) (simp add: Let_def)
    then show ?thesis by (simp add: run_round_number)
  next
    case False
    let ?rest = "round_loop caps cfg t agents (past @ [?r]) (Suc n)"
    from False have eq: "round_loop caps cfg t agents past n = ?rest"
      by (subst round_loop.simps) (simp add: Let_def)
    note step = "1.IH"[OF refl False]
    have ih: "map round_number ?rest
        = map round_number (past @ [?r]) @ [Suc n..<Suc n + (length ?rest - length (past @ [?r]))]"
      using step by (rule conjunct1)
    have longer: "length (past @ [?r]) < length ?rest"
      using step by (rule conjunct2)
    from longer have "Suc (length past) < length ?rest" by simp
    then obtain m where m: "length ?rest = length past + Suc (Suc m)"
      using less_imp_Suc_add[of "Suc (length past)" "length ?rest"] by auto
    from ih m have "map round_number ?rest = map round_number past @ (n # [Suc n..<Suc n + Suc m])"
      by (simp add: run_round_number)
    also have "n # [Suc n..<Suc n + Suc m] = [n..<n + Suc (Suc m)]"
      by (simp add: upt_conv_Cons)
    finally show ?thesis using m eq by simp
  qed
qed

text \<open>
  C9: for a task with a positive \<open>max_iterations\<close>, the session that
  \<open>start_game_session\<close> returns holds at most \<open>max_iterations\<close> round records, numbered
  1, 2, ... without a gap, so none has a number above \<open>max_iterations\<close>; the same holds
  for the rounds of a session that fails.
\<close>

theorem rounds_bounded_by_max_iterations:
  "(0 < max_iterations t \<longrightarrow>
      int (length (round_loop caps cfg t agents [] 1)) \<le> max_iterations t)
   \<and> (0 < max_iterations t \<and> start_game_session caps cfg t agents = Inr s \<longrightarrow>
        int (length (rounds s)) \<le> max_iterations t
        \<and> map round_number (rounds s) = [1..<Suc (length (rounds s))]
        \<and> (\<forall>r\<in>set (rounds s). int (round_number r) \<le> max_iterations t))"
proof -
  let ?rs = "round_loop caps cfg t agents [] 1"
  have len: "int (length ?rs) \<le> max_iterations t" if "0 < max_iterations t"
    using round_loop_length[of 1 t caps cfg agents "[]"] that by simp
  have nums: "map round_number ?rs = [1..<Suc (length ?rs)]"
    using round_loop_numbers[of caps cfg t agents "[]" 1] by simp
  have each: "\<forall>r\<in>set ?rs. int (round_number r) \<le> max_iterations t" if "0 < max_iterations t"
  proof
    fix r assume "r \<in> set ?rs"
    then have "round_number r \<in> set (map round_number ?rs)" by simp
    then have "round_number r \<in> set [1..<Suc (length ?rs)]" by (simp only: nums)
    then have "round_number r \<le> length ?rs" unfolding set_upt by auto
    with len[OF that] show "int (round_number r) \<le> max_iterations t" by simp
  qed
  have rs: "rounds s = ?rs" if "start_game_session caps cfg t agents = Inr s"
    using that by (auto simp: start_game_session_def Let_def split: option.splits)
  from len nums each rs show ?thesis by auto
qed

theorem rounds_bounded_by_max_iterations_witness:
  "0 < max_iterations example_task
   \<and> (case start_game_session example_capabilities example_config example_task example_agents of
        Inl e \<Rightarrow> False
      | Inr s \<Rightarrow> length (rounds s) = 2 \<and> map round_number (rounds s) = [1, 2]
                 \<and> int (length (rounds s)) \<le> max_iterations example_task)"
proof -
  have pos: "0 < max_iterations example_task" by (simp add: example_task_def)
  have run: "(case start_game_session example_capabilities example_config example_task
                example_agents of
        Inl e \<Rightarrow> False | Inr s \<Rightarrow> length (rounds s) = 2)"
    by code_simp
  then obtain s where s: "start_game_session example_capabilities example_config example_task
      example_agents = Inr s" "length (rounds s) = 2"
    by (auto split: sum.splits)
  from rounds_bounded_by_max_iterations[of example_task example_capabilities example_config
      example_agents s] pos s
  have "int (length (rounds s)) \<le> max_iterations example_task"
    "map round_number (rounds s) = [1..<Suc (length (rounds s))]" by simp_all
  with s pos show ?thesis by (simp add: upt_rec)
qed

end
